theory Spec2Isabelle
  imports Main
begin

section \<open>Python values, exceptions and effects\<close>

text \<open>
  The scripts of the repository talk to a remote web application with \<^verbatim>\<open>requests\<close>,
  drive a browser with Selenium and write files. Everything they do beyond computing a
  value is made explicit here: a script is a function from the answers of its environment
  (the replies of the network, the outcome of each browser step) to the trace of effects
  it performs, in order, together with the value it returns or the exception it raises.

  A decoded JSON body is a value of \<open>json\<close>; the members of an object are listed with
  their keys, each key once. Numbers are integers: the scripts only test
  a number for truth and format it, and a non-integral number is true exactly when it is
  not zero, as an integer is.
\<close>

datatype json =
    JNull
  | JBool bool
  | JNum int
  | JStr string
  | JArr "json list"
  | JObj "(string \<times> json) list"

text \<open>The exceptions the scripts can meet; each of them is a subclass of \<^verbatim>\<open>Exception\<close>.\<close>

datatype exn =
    ConnectionError
  | Timeout
  | JSONDecodeError
  | KeyError string
  | TypeError
  | AttributeError
  | WebDriverException string
  | OSError string

text \<open>
  A response of \<^verbatim>\<open>requests\<close>: its status code, its headers, its raw body, and what
  \<^verbatim>\<open>response.json()\<close> makes of the body (\<open>None\<close>: the body is not JSON and the call
  raises). A call of \<^verbatim>\<open>requests.post\<close> or \<^verbatim>\<open>requests.get\<close> either raises or returns a
  response: a reply is a value of \<open>exn + response\<close>.
\<close>

record response =
  status_code :: int
  headers :: "(string \<times> string) list"
  content :: string
  parsed :: "json option"

type_synonym reply = "exn + response"

text \<open>
  A value formatted into a printed line. A \<^verbatim>\<open>print\<close> is the event \<open>Print\<close> with the text of
  the line, each formatted value replaced by \<^verbatim>\<open>{}\<close> and listed after it; the pictographs
  that open most lines are left out.
\<close>

datatype arg = AStr string | AInt int | AJson json | AExn exn

datatype event =
    Post string json "nat option"
  | Get string "nat option"
  | Sleep nat
  | Print string "arg list"
  | Makedirs string
  | WriteFile string string
  | Install
  | Launch "string option" "string list"
  | Navigate string
  | SaveScreenshot string
  | Quit

type_synonym 'a io = "event list \<times> (exn + 'a)"

definition ret :: "'a \<Rightarrow> 'a io" where
  "ret x = ([], Inr x)"

definition lift :: "exn + 'a \<Rightarrow> 'a io" where
  "lift r = ([], r)"

definition emit :: "event \<Rightarrow> unit io" where
  "emit e = ([e], Inr ())"

definition bind :: "'a io \<Rightarrow> ('a \<Rightarrow> 'b io) \<Rightarrow> 'b io" where
  "bind m f =
     (case m of
        (t, Inl e) \<Rightarrow> (t, Inl e)
      | (t, Inr x) \<Rightarrow> (case f x of (t', r) \<Rightarrow> (t @ t', r)))"

definition seq :: "unit io \<Rightarrow> 'b io \<Rightarrow> 'b io" where
  "seq m k = bind m (\<lambda>_. k)"

text \<open>\<^verbatim>\<open>try: m except Exception as e: h(e)\<close>\<close>

definition try_except :: "'a io \<Rightarrow> (exn \<Rightarrow> 'a io) \<Rightarrow> 'a io" where
  "try_except m h =
     (case m of
        (t, Inl e) \<Rightarrow> (case h e of (t', r) \<Rightarrow> (t @ t', r))
      | (t, Inr x) \<Rightarrow> (t, Inr x))"

text \<open>
  \<^verbatim>\<open>try: m finally: c\<close>: the clean-up runs on every exit of \<open>m\<close>; an exception of the
  clean-up replaces the outcome of \<open>m\<close>.
\<close>

definition try_finally :: "'a io \<Rightarrow> unit io \<Rightarrow> 'a io" where
  "try_finally m c =
     (case m of (t, r) \<Rightarrow>
        (case c of
           (t', Inl e) \<Rightarrow> (t @ t', Inl e)
         | (t', Inr _) \<Rightarrow> (t @ t', r)))"

definition print :: "string \<Rightarrow> arg list \<Rightarrow> unit io" where
  "print s as = emit (Print s as)"

definition post :: "string \<Rightarrow> json \<Rightarrow> nat option \<Rightarrow> reply \<Rightarrow> response io" where
  "post url payload timeout r = ([Post url payload timeout], r)"

definition get :: "string \<Rightarrow> nat option \<Rightarrow> reply \<Rightarrow> response io" where
  "get url timeout r = ([Get url timeout], r)"

subsection \<open>Operations on decoded JSON\<close>

text \<open>Python's truth value of a decoded JSON value.\<close>

fun truthy :: "json \<Rightarrow> bool" where
  "truthy JNull = False"
| "truthy (JBool b) = b"
| "truthy (JNum n) = (n \<noteq> 0)"
| "truthy (JStr s) = (s \<noteq> [])"
| "truthy (JArr xs) = (xs \<noteq> [])"
| "truthy (JObj kvs) = (kvs \<noteq> [])"

text \<open>\<^verbatim>\<open>response.json()\<close>\<close>

definition json_of :: "response \<Rightarrow> exn + json" where
  "json_of r = (case parsed r of None \<Rightarrow> Inl JSONDecodeError | Some j \<Rightarrow> Inr j)"

text \<open>\<^verbatim>\<open>d.get(k, dflt)\<close>: only a dict has the method.\<close>

fun py_get :: "json \<Rightarrow> string \<Rightarrow> json \<Rightarrow> exn + json" where
  "py_get (JObj kvs) k dflt = Inr (case map_of kvs k of Some v \<Rightarrow> v | None \<Rightarrow> dflt)"
| "py_get _ k dflt = Inl AttributeError"

text \<open>\<^verbatim>\<open>d[k]\<close> with a string key.\<close>

fun py_index :: "json \<Rightarrow> string \<Rightarrow> exn + json" where
  "py_index (JObj kvs) k = (case map_of kvs k of Some v \<Rightarrow> Inr v | None \<Rightarrow> Inl (KeyError k))"
| "py_index _ k = Inl TypeError"

fun starts_with :: "string \<Rightarrow> string \<Rightarrow> bool" where
  "starts_with [] s = True"
| "starts_with (p # ps) [] = False"
| "starts_with (p # ps) (c # cs) = (p = c \<and> starts_with ps cs)"

fun contains :: "string \<Rightarrow> string \<Rightarrow> bool" where
  "contains p [] = (p = [])"
| "contains p (c # cs) = (starts_with p (c # cs) \<or> contains p cs)"

text \<open>\<^verbatim>\<open>k in d\<close> with a string \<open>k\<close>: a key of a dict, an element of a list, a substring of a string.\<close>

fun py_in :: "string \<Rightarrow> json \<Rightarrow> exn + bool" where
  "py_in k (JObj kvs) = Inr (map_of kvs k \<noteq> None)"
| "py_in k (JArr xs) = Inr (JStr k \<in> set xs)"
| "py_in k (JStr s) = Inr (contains k s)"
| "py_in k _ = Inl TypeError"

section \<open>create_font_comparison.py\<close>

definition web_app_url :: string where
  "web_app_url =
     ''https://script.google.com/macros/s/AKfycbwsD1RQSgoRsF3tqGka2YZmhYlIMmDYKmnIlA5c9YqeiJ6OtpzgRw5C1e7teKacOEkw/exec''"

definition before_payload :: json where
  "before_payload = JObj
     [(''fn'', JStr ''createPresentationFromPrompt''),
      (''args'', JArr [JStr ''Create presentation with default fonts - BEFORE demonstration''])]"

definition after_payload :: json where
  "after_payload = JObj
     [(''fn'', JStr ''createPresentationFromPrompt''),
      (''args'', JArr [JStr ''Create presentation with https://coolors.co/edd3c4-c8adc0-7765e3-3b60e4-080708 and Merriweather/Inter fonts - AFTER demonstration''])]"

text \<open>An entry of the list \<^verbatim>\<open>presentations\<close>; the fields are the keys of the dict.\<close>

record presentation =
  p_type :: string
  p_id :: json
  p_title :: string
  p_edit_url :: string
  p_pub_url :: string

text \<open>
  Formatting a decoded JSON value into an f-string is Python's \<^verbatim>\<open>str\<close>; the models take it
  as the parameter \<open>str\<close>.
\<close>

definition edit_url_of :: "(json \<Rightarrow> string) \<Rightarrow> json \<Rightarrow> string" where
  "edit_url_of str i = ''https://docs.google.com/presentation/d/'' @ str i @ ''/edit''"

definition pub_url_of :: "(json \<Rightarrow> string) \<Rightarrow> json \<Rightarrow> string" where
  "pub_url_of str i = ''https://docs.google.com/presentation/d/'' @ str i @ ''/pub''"

definition export_url_of :: "(json \<Rightarrow> string) \<Rightarrow> json \<Rightarrow> string \<Rightarrow> string" where
  "export_url_of str i fmt =
     ''https://docs.google.com/presentation/d/'' @ str i @ ''/export?format='' @ fmt"

text \<open>Lines 16 to 39: the BEFORE presentation.\<close>

definition create_before :: "(json \<Rightarrow> string) \<Rightarrow> reply \<Rightarrow> presentation list \<Rightarrow> presentation list io" where
  "create_before str r presentations =
     seq (print ''Creating BEFORE presentation (default fonts)...'' [])
     (bind (post web_app_url before_payload (Some 30) r) (\<lambda>before_response.
      if status_code before_response = 200 then
        bind (lift (json_of before_response)) (\<lambda>before_result.
        bind (lift (py_get before_result ''result'' (JObj []))) (\<lambda>res.
        bind (lift (py_get res ''success'' JNull)) (\<lambda>success.
        if truthy success then
          bind (lift (py_index before_result ''result'')) (\<lambda>res'.
          bind (lift (py_index res' ''presentationId'')) (\<lambda>before_id.
          seq (print ''BEFORE presentation created: {}'' [AJson before_id])
          (ret (presentations @
             [\<lparr>p_type = ''BEFORE'', p_id = before_id, p_title = ''Default Fonts (Before)'',
               p_edit_url = edit_url_of str before_id, p_pub_url = pub_url_of str before_id\<rparr>]))))
        else
          seq (print ''BEFORE presentation creation failed'' []) (ret presentations))))
      else
        seq (print ''BEFORE API call failed: {}'' [AInt (status_code before_response)])
        (ret presentations)))"

text \<open>Lines 43 to 66: the AFTER presentation.\<close>

definition create_after :: "(json \<Rightarrow> string) \<Rightarrow> reply \<Rightarrow> presentation list \<Rightarrow> presentation list io" where
  "create_after str r presentations =
     seq (print ''Creating AFTER presentation (Merriweather/Inter fonts)...'' [])
     (bind (post web_app_url after_payload (Some 30) r) (\<lambda>after_response.
      if status_code after_response = 200 then
        bind (lift (json_of after_response)) (\<lambda>after_result.
        bind (lift (py_get after_result ''result'' (JObj []))) (\<lambda>res.
        bind (lift (py_get res ''success'' JNull)) (\<lambda>success.
        if truthy success then
          bind (lift (py_index after_result ''result'')) (\<lambda>res'.
          bind (lift (py_index res' ''presentationId'')) (\<lambda>after_id.
          seq (print ''AFTER presentation created: {}'' [AJson after_id])
          (ret (presentations @
             [\<lparr>p_type = ''AFTER'', p_id = after_id, p_title = ''Merriweather/Inter Fonts (After)'',
               p_edit_url = edit_url_of str after_id, p_pub_url = pub_url_of str after_id\<rparr>]))))
        else
          seq (print ''AFTER presentation creation failed'' []) (ret presentations))))
      else
        seq (print ''AFTER API call failed: {}'' [AInt (status_code after_response)])
        (ret presentations)))"

text \<open>Lines 68 to 77: the loop that displays the entries.\<close>

fun display :: "presentation list \<Rightarrow> unit io" where
  "display [] = ret ()"
| "display (pres # rest) =
     seq (print ''{} - {}'' [AStr (p_type pres), AStr (p_title pres)])
     (seq (print ''ID: {}'' [AJson (p_id pres)])
     (seq (print ''Edit URL: {}'' [AStr (p_edit_url pres)])
     (seq (print ''Public URL: {}'' [AStr (p_pub_url pres)])
     (seq (print ''PNG Export: https://docs.google.com/presentation/d/{}/export?format=png''
             [AJson (p_id pres)])
     (display rest)))))"

definition create_font_comparison :: "(json \<Rightarrow> string) \<Rightarrow> reply \<Rightarrow> reply \<Rightarrow> presentation list io" where
  "create_font_comparison str r1 r2 =
     bind (create_before str r1 []) (\<lambda>presentations.
     seq (emit (Sleep 2))
     (bind (create_after str r2 presentations) (\<lambda>presentations.
     seq (print ''BEFORE/AFTER FONT PAIR COMPARISON'' [])
     (seq (print ''===================================='' [])
     (seq (display presentations)
     (if length presentations = 2 then
        seq (print ''TO VIEW THE DIFFERENCE:'' [])
        (seq (print ''1. Open both edit URLs in separate browser tabs'' [])
        (seq (print ''2. Compare the font styling between presentations'' [])
        (seq (print ''3. BEFORE uses default Google Slides fonts'' [])
        (seq (print ''4. AFTER uses Merriweather (headings) + Inter (body text)'' [])
        (ret presentations)))))
      else
        seq (print ''Could not create both presentations for comparison'' [])
        (ret presentations)))))))"

text \<open>The creation requests of a trace, in the order they were issued.\<close>

fun posts :: "event list \<Rightarrow> json list" where
  "posts [] = []"
| "posts (Post u p t # es) = p # posts es"
| "posts (e # es) = posts es"

section \<open>test_api.py\<close>

definition api_payload :: json where
  "api_payload = JObj
     [(''fn'', JStr ''createPresentationFromPrompt''),
      (''args'', JArr [JStr ''Create presentation with https://coolors.co/edd3c4-c8adc0-7765e3-3b60e4-080708 and Merriweather/Inter fonts''])]"

text \<open>Lines 35 to 46: the two optional parts of a created presentation.\<close>

definition report_style :: "json \<Rightarrow> unit io" where
  "report_style presentation_data =
     bind (lift (py_get presentation_data ''fontPair'' JNull)) (\<lambda>font_pair.
     bind (lift (py_get presentation_data ''colorPalette'' JNull)) (\<lambda>color_palette.
     seq (if truthy font_pair then
            bind (lift (py_index font_pair ''heading'')) (\<lambda>heading.
            bind (lift (py_index font_pair ''body'')) (\<lambda>body.
            print ''Font Pair: {}/{}'' [AJson heading, AJson body]))
          else print ''Font pair data not available (basic function deployed)'' [])
     (if truthy color_palette then
        bind (lift (py_index color_palette ''palette'')) (\<lambda>palette.
        print ''Color Palette: {}'' [AJson palette])
      else print ''Color palette data not available'' [])))"

text \<open>
  \<^verbatim>\<open>'result' in result and result['result'].get('success')\<close>: the second operand is
  evaluated only when the first is true.
\<close>

definition result_succeeded :: "json \<Rightarrow> exn + bool" where
  "result_succeeded result =
     (case py_in ''result'' result of
        Inl e \<Rightarrow> Inl e
      | Inr False \<Rightarrow> Inr False
      | Inr True \<Rightarrow>
          (case py_index result ''result'' of
             Inl e \<Rightarrow> Inl e
           | Inr res \<Rightarrow>
               (case py_get res ''success'' JNull of
                  Inl e \<Rightarrow> Inl e
                | Inr s \<Rightarrow> Inr (truthy s))))"

definition test_api_main :: "reply \<Rightarrow> unit io" where
  "test_api_main r =
     seq (print ''Calling Web API to create presentation...'' [])
     (try_except
        (bind (post web_app_url api_payload (Some 30) r) (\<lambda>response.
         if status_code response = 200 then
           bind (lift (json_of response)) (\<lambda>result.
           seq (print ''API Response: {}'' [AJson result])
           (bind (lift (result_succeeded result)) (\<lambda>ok.
            if ok then
              bind (lift (py_index result ''result'')) (\<lambda>presentation_data.
              bind (lift (py_get presentation_data ''presentationId'' JNull)) (\<lambda>presentation_id.
              seq (print ''PRESENTATION CREATED SUCCESSFULLY'' [])
              (seq (print ''========================================'' [])
              (seq (print ''Presentation ID: {}'' [AJson presentation_id])
              (seq (print ''Edit URL: https://docs.google.com/presentation/d/{}/edit''
                      [AJson presentation_id])
              (seq (print ''Public URL: https://docs.google.com/presentation/d/{}/pub''
                      [AJson presentation_id])
              (report_style presentation_data)))))))
            else print ''API call failed: {}'' [AJson result])))
         else
           seq (print ''HTTP Error: {}'' [AInt (status_code response)])
           (print ''{}'' [AStr (content response)])))
        (\<lambda>e. print ''Error: {}'' [AExn e]))"

section \<open>scripts/screenshot_presentation.py: creating the presentation\<close>

text \<open>The dict that \<^verbatim>\<open>create_presentation_via_api\<close> returns.\<close>

record presentation_data =
  presentation_id :: json
  edit_url :: string
  pub_url :: string
  font_pair :: json
  color_palette :: json

definition create_presentation_via_api :: "(json \<Rightarrow> string) \<Rightarrow> reply \<Rightarrow> presentation_data option io" where
  "create_presentation_via_api str r =
     seq (print ''Calling Web API to create presentation...'' [])
     (bind (post web_app_url api_payload None r) (\<lambda>response.
      if status_code response = 200 then
        bind (lift (json_of response)) (\<lambda>result.
        seq (print ''API Response: {}'' [AJson result])
        (bind (lift (result_succeeded result)) (\<lambda>ok.
         if ok then
           bind (lift (py_index result ''result'')) (\<lambda>data.
           bind (lift (py_get data ''presentationId'' JNull)) (\<lambda>pid.
           seq (print ''Presentation created with ID: {}'' [AJson pid])
           (bind (lift (py_get data ''fontPair'' JNull)) (\<lambda>fp.
            bind (lift (py_get data ''colorPalette'' JNull)) (\<lambda>cp.
            ret (Some \<lparr>presentation_id = pid, edit_url = edit_url_of str pid,
                       pub_url = pub_url_of str pid, font_pair = fp, color_palette = cp\<rparr>))))))
         else
           seq (print ''API call failed: {}'' [AJson result]) (ret None))))
      else
        seq (print ''HTTP Error: {}'' [AInt (status_code response)]) (ret None)))"

section \<open>Driving the browser\<close>

text \<open>
  What the browser automation answers in one run: the outcome of installing a driver with
  \<^verbatim>\<open>ChromeDriverManager().install()\<close> (the path of the driver), of starting the browser
  with \<^verbatim>\<open>webdriver.Chrome\<close>, of \<^verbatim>\<open>driver.get\<close> for each address, of reading
  \<^verbatim>\<open>driver.title\<close> and \<^verbatim>\<open>driver.current_url\<close>, of \<^verbatim>\<open>driver.save_screenshot\<close> for
  each path (the call returns a truth value, which no script reads) and of
  \<^verbatim>\<open>driver.quit\<close>. Creating the directory \<^verbatim>\<open>screenshots\<close> with
  \<^verbatim>\<open>os.makedirs(..., exist_ok=True)\<close> and writing a file are taken to succeed.
\<close>

record browser =
  install_result :: "exn + string"
  launch_result :: "exn option"
  navigate_result :: "string \<Rightarrow> exn option"
  title_result :: "exn + string"
  current_url_result :: "exn + string"
  save_result :: "string \<Rightarrow> exn + bool"
  quit_result :: "exn option"

definition outcome_of :: "exn option \<Rightarrow> exn + unit" where
  "outcome_of r = (case r of None \<Rightarrow> Inr () | Some e \<Rightarrow> Inl e)"

definition install :: "browser \<Rightarrow> string io" where
  "install env = ([Install], install_result env)"

text \<open>\<^verbatim>\<open>webdriver.Chrome\<close> with the path of the driver service, if one is given, and the arguments of the options.\<close>

definition chrome :: "browser \<Rightarrow> string option \<Rightarrow> string list \<Rightarrow> unit io" where
  "chrome env service arguments = ([Launch service arguments], outcome_of (launch_result env))"

definition driver_get :: "browser \<Rightarrow> string \<Rightarrow> unit io" where
  "driver_get env url = ([Navigate url], outcome_of (navigate_result env url))"

definition save_screenshot :: "browser \<Rightarrow> string \<Rightarrow> bool io" where
  "save_screenshot env path = ([SaveScreenshot path], save_result env path)"

definition driver_quit :: "browser \<Rightarrow> unit io" where
  "driver_quit env = ([Quit], outcome_of (quit_result env))"

definition sleep :: "nat \<Rightarrow> unit io" where
  "sleep n = emit (Sleep n)"

definition makedirs :: "string \<Rightarrow> unit io" where
  "makedirs d = emit (Makedirs d)"

text \<open>The presentation that the three stand-alone screenshot scripts capture.\<close>

definition demo_presentation_id :: string where
  "demo_presentation_id = ''1ZZbpgBzMvQ-ggHT6Fd2a3JNWhhiv755FbsiAiSpY2wA''"

definition demo_pub_url :: string where
  "demo_pub_url = ''https://docs.google.com/presentation/d/'' @ demo_presentation_id @ ''/pub''"

definition demo_edit_url :: string where
  "demo_edit_url = ''https://docs.google.com/presentation/d/'' @ demo_presentation_id @ ''/edit''"

section \<open>quick_screenshot.py: the explicit driver\<close>

text \<open>
  The variable \<^verbatim>\<open>driver\<close> is bound exactly when \<^verbatim>\<open>webdriver.Chrome\<close>, the first statement
  of the \<^verbatim>\<open>try\<close>, has returned: that is the test \<^verbatim>\<open>'driver' in locals()\<close> of the
  \<^verbatim>\<open>finally\<close> clause.
\<close>

definition quick_screenshot_main :: "browser \<Rightarrow> unit io" where
  "quick_screenshot_main env =
     seq (print ''Taking screenshot of: {}'' [AStr demo_pub_url])
     (try_finally
        (try_except
           (seq (chrome env (Some ''/opt/homebrew/bin/chromedriver'')
                   [''--headless'', ''--no-sandbox'', ''--disable-dev-shm-usage'',
                    ''--window-size=1200,800''])
           (seq (driver_get env demo_pub_url)
           (seq (sleep 5)
           (seq (makedirs ''screenshots'')
           (bind (save_screenshot env ''screenshots/font_pair_demo_working.png'') (\<lambda>_.
            seq (print ''Screenshot saved: {}'' [AStr ''screenshots/font_pair_demo_working.png''])
            (seq (print ''Presentation ID: {}'' [AStr demo_presentation_id])
            (print ''SUCCESS: Working Web API + Google Slides demonstration!'' []))))))))
           (\<lambda>e. print ''Error: {}'' [AExn e]))
        (if launch_result env = None then driver_quit env else ret ()))"

section \<open>final_screenshot.py: the managed driver\<close>

definition final_screenshot_main :: "browser \<Rightarrow> string option io" where
  "final_screenshot_main env =
     seq (print ''Taking screenshot of: {}'' [AStr demo_pub_url])
     (try_except
        (bind (install env) (\<lambda>driver_path.
         seq (chrome env (Some driver_path)
                [''--headless'', ''--no-sandbox'', ''--disable-dev-shm-usage'',
                 ''--window-size=1200,800'', ''--disable-gpu''])
         (seq (driver_get env demo_pub_url)
         (seq (sleep 5)
         (seq (makedirs ''screenshots'')
         (bind (save_screenshot env ''screenshots/working_presentation_demo.png'') (\<lambda>_.
          seq (print ''Screenshot saved: {}'' [AStr ''screenshots/working_presentation_demo.png''])
          (seq (print ''Presentation ID: {}'' [AStr demo_presentation_id])
          (seq (print ''SUCCESS: Working Web API + Google Slides demonstration captured!'' [])
          (seq (driver_quit env)
          (ret (Some ''screenshots/working_presentation_demo.png''))))))))))))
        (\<lambda>e. seq (print ''Error: {}'' [AExn e]) (ret None)))"

section \<open>debug_screenshot.py: the visible browser\<close>

definition debug_screenshot_main :: "browser \<Rightarrow> string option io" where
  "debug_screenshot_main env =
     seq (print ''Debug: Opening {}'' [AStr demo_pub_url])
     (try_except
        (bind (install env) (\<lambda>driver_path.
         seq (chrome env (Some driver_path)
                [''--no-sandbox'', ''--disable-dev-shm-usage'', ''--window-size=1200,800''])
         (seq (print ''Opening URL...'' [])
         (seq (driver_get env demo_pub_url)
         (seq (print ''Waiting 10 seconds for page to load...'' [])
         (seq (sleep 10)
         (bind (lift (title_result env)) (\<lambda>title.
          seq (print ''Page title: {}'' [AStr title])
          (bind (lift (current_url_result env)) (\<lambda>current_url.
           seq (print ''Current URL: {}'' [AStr current_url])
           (seq (makedirs ''screenshots'')
           (bind (save_screenshot env ''screenshots/debug_presentation.png'') (\<lambda>_.
            seq (print ''Screenshot saved: {}'' [AStr ''screenshots/debug_presentation.png''])
            (seq (print ''Browser will close in 5 seconds...'' [])
            (seq (sleep 5)
            (seq (driver_quit env)
            (ret (Some ''screenshots/debug_presentation.png''))))))))))))))))))
        (\<lambda>e. seq (print ''Error: {}'' [AExn e])
              (seq (print ''{traceback}'' [AExn e]) (ret None))))"

section \<open>scripts/screenshot_presentation.py: capturing the two views\<close>

text \<open>The dict of the two paths that \<^verbatim>\<open>screenshot_presentation\<close> returns.\<close>

record screenshots =
  pub_screenshot :: string
  edit_screenshot :: string

text \<open>
  The time stamp \<^verbatim>\<open>datetime.now().strftime('%Y%m%d_%H%M%S')\<close> is the parameter
  \<open>timestamp\<close>. The variable \<^verbatim>\<open>driver\<close> is \<^verbatim>\<open>None\<close> until \<^verbatim>\<open>webdriver.Chrome\<close>,
  the first statement of the \<^verbatim>\<open>try\<close>, has returned.
\<close>

definition screenshot_presentation ::
  "string \<Rightarrow> browser \<Rightarrow> presentation_data option \<Rightarrow> screenshots option io" where
  "screenshot_presentation timestamp env presentation_data =
     (case presentation_data of
        None \<Rightarrow> seq (print ''No presentation data to screenshot'' []) (ret None)
      | Some pd \<Rightarrow>
          try_finally
            (try_except
               (seq (chrome env None
                       [''--headless'', ''--no-sandbox'', ''--disable-dev-shm-usage'',
                        ''--window-size=1920,1080'', ''--disable-gpu''])
               (seq (makedirs ''screenshots'')
               (seq (print ''Taking screenshot of public URL...'' [])
               (seq (driver_get env (pub_url pd))
               (seq (sleep 5)
               (bind (save_screenshot env (''screenshots/font_demo_public_'' @ timestamp @ ''.png'')) (\<lambda>_.
                seq (print ''Public view screenshot saved: {}''
                       [AStr (''screenshots/font_demo_public_'' @ timestamp @ ''.png'')])
                (seq (print ''Attempting screenshot of edit URL...'' [])
                (seq (driver_get env (edit_url pd))
                (seq (sleep 8)
                (bind (save_screenshot env (''screenshots/font_demo_edit_'' @ timestamp @ ''.png'')) (\<lambda>_.
                 seq (print ''Edit view screenshot saved: {}''
                        [AStr (''screenshots/font_demo_edit_'' @ timestamp @ ''.png'')])
                 (seq (print ''FONT PAIR DEMONSTRATION COMPLETE'' [])
                 (seq (print ''========================================'' [])
                 (seq (print ''Presentation ID: {}'' [AJson (presentation_id pd)])
                 (seq (print ''Font Pair Data: {}'' [AJson (font_pair pd)])
                 (seq (print ''Color Palette: {}'' [AJson (color_palette pd)])
                 (seq (print ''Screenshots saved in: screenshots/'' [])
                 (seq (print ''Edit URL: {}'' [AStr (edit_url pd)])
                 (seq (print ''Public URL: {}'' [AStr (pub_url pd)])
                 (ret (Some \<lparr>pub_screenshot = ''screenshots/font_demo_public_'' @ timestamp @ ''.png'',
                            edit_screenshot = ''screenshots/font_demo_edit_'' @ timestamp @ ''.png''\<rparr>
                      ))))))))))))))))))))))
               (\<lambda>e. seq (print ''Screenshot error: {}'' [AExn e]) (ret None)))
            (if launch_result env = None then driver_quit env else ret ()))"

section \<open>scripts/simple_screenshot.py\<close>

definition simple_screenshot_presentation :: "string \<Rightarrow> browser \<Rightarrow> string option io" where
  "simple_screenshot_presentation timestamp env =
     try_finally
       (try_except
          (seq (print ''Starting Chrome browser...'' [])
          (seq (chrome env None
                  [''--no-sandbox'', ''--disable-dev-shm-usage'', ''--window-size=1920,1080'',
                   ''--disable-gpu'', ''--disable-web-security'',
                   ''--allow-running-insecure-content''])
          (seq (makedirs ''screenshots'')
          (seq (print ''Taking screenshot of public URL...'' [])
          (seq (print ''URL: {}'' [AStr demo_pub_url])
          (seq (driver_get env demo_pub_url)
          (seq (sleep 8)
          (bind (save_screenshot env (''screenshots/working_presentation_'' @ timestamp @ ''.png'')) (\<lambda>_.
           seq (print ''Public view screenshot saved: {}''
                  [AStr (''screenshots/working_presentation_'' @ timestamp @ ''.png'')])
           (seq (print ''SCREENSHOT DEMONSTRATION COMPLETE'' [])
           (seq (print ''=================================================='' [])
           (seq (print ''Presentation ID: {}'' [AStr demo_presentation_id])
           (seq (print ''Screenshot saved: {}''
                   [AStr (''screenshots/working_presentation_'' @ timestamp @ ''.png'')])
           (seq (print ''Edit URL: {}'' [AStr demo_edit_url])
           (seq (print ''Public URL: {}'' [AStr demo_pub_url])
           (seq (print ''This demonstrates the working Web API + Google Slides integration!'' [])
           (seq (print ''The presentation was created via API call and successfully screenshotted.'' [])
           (ret (Some (''screenshots/working_presentation_'' @ timestamp @ ''.png''))
           ))))))))))))))))))
          (\<lambda>e. seq (print ''Screenshot error: {}'' [AExn e]) (ret None)))
       (if launch_result env = None
        then seq (print ''Closing browser...'' []) (driver_quit env)
        else ret ())"

text \<open>
  For each capture of a trace, the address that was opened and the seconds slept between
  opening it and capturing it.
\<close>

fun settle_waits :: "(string \<times> nat) option \<Rightarrow> event list \<Rightarrow> (string \<times> nat) list" where
  "settle_waits cur [] = []"
| "settle_waits cur (Navigate u # es) = settle_waits (Some (u, 0)) es"
| "settle_waits (Some (u, n)) (Sleep k # es) = settle_waits (Some (u, n + k)) es"
| "settle_waits (Some (u, n)) (SaveScreenshot p # es) = (u, n) # settle_waits None es"
| "settle_waits cur (e # es) = settle_waits cur es"

text \<open>The number of browsers a trace starts, and whether it installs a driver.\<close>

fun launches :: "event list \<Rightarrow> nat" where
  "launches [] = 0"
| "launches (Launch s a # es) = Suc (launches es)"
| "launches (e # es) = launches es"

text \<open>An environment in which every step of the automation succeeds.\<close>

definition browser_ok :: browser where
  "browser_ok = \<lparr>install_result = Inr ''/drivers/chromedriver'', launch_result = None,
     navigate_result = (\<lambda>u. None), title_result = Inr ''Slides'',
     current_url_result = Inr demo_pub_url, save_result = (\<lambda>p. Inr True),
     quit_result = None\<rparr>"

section \<open>Outcomes of a creation request\<close>

text \<open>
  What one creation request comes to, read off its reply: the presentation was created
  (with its identifier), it was not (a status other than 200, or a \<^verbatim>\<open>success\<close> that is
  not true), or the script raises there (no reply, a body that is not JSON, a body or a
  \<^verbatim>\<open>result\<close> that is not an object, a true \<^verbatim>\<open>success\<close> with no \<^verbatim>\<open>presentationId\<close>).
\<close>

datatype outcome = Created json | NotCreated | Faulted exn

fun body_outcome :: "json \<Rightarrow> outcome" where
  "body_outcome (JObj kvs) =
     (case map_of kvs ''result'' of
        None \<Rightarrow> NotCreated
      | Some (JObj res) \<Rightarrow>
          (case map_of res ''success'' of
             None \<Rightarrow> NotCreated
           | Some s \<Rightarrow>
               if truthy s then
                 (case map_of res ''presentationId'' of
                    None \<Rightarrow> Faulted (KeyError ''presentationId'')
                  | Some i \<Rightarrow> Created i)
               else NotCreated)
      | Some _ \<Rightarrow> Faulted AttributeError)"
| "body_outcome _ = Faulted AttributeError"

definition creation_outcome :: "reply \<Rightarrow> outcome" where
  "creation_outcome r =
     (case r of
        Inl e \<Rightarrow> Faulted e
      | Inr resp \<Rightarrow>
          if status_code resp \<noteq> 200 then NotCreated
          else (case parsed resp of None \<Rightarrow> Faulted JSONDecodeError | Some j \<Rightarrow> body_outcome j))"

fun is_fault :: "outcome \<Rightarrow> bool" where
  "is_fault (Faulted e) = True"
| "is_fault _ = False"

text \<open>The entry a creation contributes to the returned list: one when it was created, none otherwise.\<close>

fun entries :: "(json \<Rightarrow> string) \<Rightarrow> string \<Rightarrow> string \<Rightarrow> outcome \<Rightarrow> presentation list" where
  "entries str ty title (Created i) =
     [\<lparr>p_type = ty, p_id = i, p_title = title,
       p_edit_url = edit_url_of str i, p_pub_url = pub_url_of str i\<rparr>]"
| "entries str ty title _ = []"

subsection \<open>Example replies\<close>

text \<open>Python's \<^verbatim>\<open>str\<close> on the identifiers of the examples, which are strings.\<close>

definition str_id :: "json \<Rightarrow> string" where
  "str_id j = (case j of JStr s \<Rightarrow> s | _ \<Rightarrow> [])"

text \<open>A response with the given status and an empty body.\<close>

definition resp_status :: "int \<Rightarrow> response" where
  "resp_status n = \<lparr>status_code = n, headers = [], content = [], parsed = None\<rparr>"

text \<open>The response of a successful creation of the presentation \<open>i\<close>.\<close>

definition resp_created :: "string \<Rightarrow> response" where
  "resp_created i = \<lparr>status_code = 200, headers = [], content = [],
     parsed = Some (JObj [(''result'', JObj [(''success'', JBool True), (''presentationId'', JStr i)])])\<rparr>"

text \<open>A response with status 200 whose body is not JSON.\<close>

definition resp_malformed :: response where
  "resp_malformed = \<lparr>status_code = 200, headers = [], content = ''<html>'', parsed = None\<rparr>"

section \<open>Faults of a capture\<close>

text \<open>
  The steps of each stand-alone capture whose exception its \<^verbatim>\<open>except\<close> clause catches,
  in the order the script takes them, each with the exception it raises in the
  environment, if any; the first of them is the fault of the run. In final_screenshot.py
  and debug_screenshot.py \<^verbatim>\<open>driver.quit()\<close> is the last statement of the \<^verbatim>\<open>try\<close>
  and is one of these steps. In quick_screenshot.py it runs in the \<^verbatim>\<open>finally\<close>
  clause, after the \<^verbatim>\<open>except\<close> clause and outside it: an exception it raises is not
  caught and leaves \<^verbatim>\<open>main\<close>; it is kept apart as \<open>quick_quit_fault\<close>.
\<close>

fun first_fault :: "exn option list \<Rightarrow> exn option" where
  "first_fault [] = None"
| "first_fault (None # rs) = first_fault rs"
| "first_fault (Some e # rs) = Some e"

definition fault_of :: "exn + 'a \<Rightarrow> exn option" where
  "fault_of r = (case r of Inl e \<Rightarrow> Some e | Inr x \<Rightarrow> None)"

definition quick_try_steps :: "browser \<Rightarrow> exn option list" where
  "quick_try_steps env =
     [launch_result env, navigate_result env demo_pub_url,
      fault_of (save_result env ''screenshots/font_pair_demo_working.png'')]"

text \<open>
  The exception of the \<^verbatim>\<open>finally\<close> clause of quick_screenshot.py, if any:
  \<^verbatim>\<open>driver.quit()\<close> is called there exactly when the browser was started.
\<close>

definition quick_quit_fault :: "browser \<Rightarrow> exn option" where
  "quick_quit_fault env = (if launch_result env = None then quit_result env else None)"

definition final_steps :: "browser \<Rightarrow> exn option list" where
  "final_steps env =
     [fault_of (install_result env), launch_result env, navigate_result env demo_pub_url,
      fault_of (save_result env ''screenshots/working_presentation_demo.png''),
      quit_result env]"

definition debug_steps :: "browser \<Rightarrow> exn option list" where
  "debug_steps env =
     [fault_of (install_result env), launch_result env, navigate_result env demo_pub_url,
      fault_of (title_result env), fault_of (current_url_result env),
      fault_of (save_result env ''screenshots/debug_presentation.png''),
      quit_result env]"

subsection \<open>Example environments\<close>

text \<open>The data of the demonstration presentation, as \<^verbatim>\<open>create_presentation_via_api\<close> would return it.\<close>

definition demo_data :: presentation_data where
  "demo_data = \<lparr>presentation_id = JStr demo_presentation_id, edit_url = demo_edit_url,
     pub_url = demo_pub_url, font_pair = JNull, color_palette = JNull\<rparr>"

text \<open>The browser starts, and every navigation times out.\<close>

definition browser_nav_fault :: browser where
  "browser_nav_fault = browser_ok\<lparr>navigate_result := (\<lambda>u. Some (WebDriverException ''timeout''))\<rparr>"

text \<open>The browser cannot be started.\<close>

definition browser_no_driver :: browser where
  "browser_no_driver = browser_ok\<lparr>launch_result := Some (WebDriverException ''chromedriver not found'')\<rparr>"

section \<open>scripts/export_screenshot.py\<close>

definition write_file :: "string \<Rightarrow> string \<Rightarrow> unit io" where
  "write_file path bytes = emit (WriteFile path bytes)"

text \<open>\<^verbatim>\<open>response.headers.get(k, dflt)\<close>\<close>

definition header :: "response \<Rightarrow> string \<Rightarrow> string \<Rightarrow> string" where
  "header r k dflt = (case map_of (headers r) k of Some v \<Rightarrow> v | None \<Rightarrow> dflt)"

definition export_presentation_id :: string where
  "export_presentation_id = ''1iHPWDJK3KQ6BG1z_VO4Xebax85kk0vwb_9j5YsXFHLc''"

definition png_export_url :: string where
  "png_export_url =
     ''https://docs.google.com/presentation/d/'' @ export_presentation_id @ ''/export?format=png''"

definition svg_export_url :: string where
  "svg_export_url =
     ''https://docs.google.com/presentation/d/'' @ export_presentation_id @ ''/export?format=svg''"

text \<open>The dict of the two paths that \<^verbatim>\<open>export_presentation_screenshots\<close> returns.\<close>

record export_paths =
  png_path :: "string option"
  svg_path :: "string option"

text \<open>
  \<^verbatim>\<open>os.path.getsize\<close> of the file just written is the length of the bytes written;
  \<^verbatim>\<open>response.text\<close> is the body.
\<close>

definition export_presentation_screenshots :: "string \<Rightarrow> reply \<Rightarrow> reply \<Rightarrow> export_paths option io" where
  "export_presentation_screenshots timestamp r_png r_svg =
     seq (print ''FONT PAIR DEMONSTRATION - EXPORT SCREENSHOTS'' [])
     (seq (print ''==============================================='' [])
     (seq (print ''Presentation ID: {}'' [AStr export_presentation_id])
     (seq (print ''PNG Export URL: {}'' [AStr png_export_url])
     (seq (print ''SVG Export URL: {}'' [AStr svg_export_url])
     (seq (print [] [])
     (seq (makedirs ''screenshots'')
     (try_except
        (seq (print ''Exporting PNG screenshot...'' [])
        (bind (get png_export_url (Some 30) r_png) (\<lambda>png_response.
         seq (if status_code png_response = 200 then
                seq (write_file (''screenshots/font_demo_export_'' @ timestamp @ ''.png'')
                       (content png_response))
                (seq (print ''PNG screenshot saved: {}''
                        [AStr (''screenshots/font_demo_export_'' @ timestamp @ ''.png'')])
                (print ''PNG file size: {} bytes'' [AInt (int (length (content png_response)))]))
              else
                seq (print ''PNG export failed: HTTP {}'' [AInt (status_code png_response)])
                (print ''Response: {}'' [AStr (take 200 (content png_response))]))
         (seq (print ''Exporting SVG screenshot...'' [])
         (bind (get svg_export_url (Some 30) r_svg) (\<lambda>svg_response.
          seq (if status_code svg_response = 200 then
                 seq (write_file (''screenshots/font_demo_export_'' @ timestamp @ ''.svg'')
                        (content svg_response))
                 (seq (print ''SVG screenshot saved: {}''
                         [AStr (''screenshots/font_demo_export_'' @ timestamp @ ''.svg'')])
                 (print ''SVG file size: {} bytes'' [AInt (int (length (content svg_response)))]))
               else
                 seq (print ''SVG export failed: HTTP {}'' [AInt (status_code svg_response)])
                 (print ''Response: {}'' [AStr (take 200 (content svg_response))]))
          (seq (print ''EXPORT DEMONSTRATION COMPLETE!'' [])
          (seq (print ''==================================='' [])
          (seq (print ''Working Web API + Google Slides integration'' [])
          (seq (print ''Presentation creation and export working'' [])
          (seq (print ''Font pair system infrastructure in place'' [])
          (seq (print ''Original presentation: https://docs.google.com/presentation/d/{}/edit''
                  [AStr export_presentation_id])
          (ret (Some \<lparr>png_path =
                        (if status_code png_response = 200
                         then Some (''screenshots/font_demo_export_'' @ timestamp @ ''.png'')
                         else None),
                      svg_path =
                        (if status_code svg_response = 200
                         then Some (''screenshots/font_demo_export_'' @ timestamp @ ''.svg'')
                         else None)\<rparr>))))))))))))))
        (\<lambda>e. seq (print ''Export error: {}'' [AExn e]) (ret None)))))))))"

section \<open>test_export_after_create.py\<close>

definition export_test_payload :: json where
  "export_test_payload = JObj
     [(''fn'', JStr ''createPresentationFromPrompt''),
      (''args'', JArr [JStr ''Create presentation with Merriweather/Inter fonts for export test''])]"

definition test_create_and_export :: "(json \<Rightarrow> string) \<Rightarrow> reply \<Rightarrow> reply \<Rightarrow> string option io" where
  "test_create_and_export str r_post r_get =
     seq (print ''Creating presentation with sharing enabled...'' [])
     (bind (post web_app_url export_test_payload (Some 30) r_post) (\<lambda>response.
      if status_code response \<noteq> 200 then
        seq (print ''API call failed: {}'' [AInt (status_code response)]) (ret None)
      else
        bind (lift (json_of response)) (\<lambda>result.
        bind (lift (py_get result ''result'' (JObj []))) (\<lambda>res.
        bind (lift (py_get res ''success'' JNull)) (\<lambda>success.
        if \<not> truthy success then
          seq (print ''Presentation creation failed'' []) (ret None)
        else
          bind (lift (py_index result ''result'')) (\<lambda>res'.
          bind (lift (py_index res' ''presentationId'')) (\<lambda>presentation_id.
          seq (print ''Presentation created: {}'' [AJson presentation_id])
          (seq (print ''Waiting 5 seconds for sharing permissions to propagate...'' [])
          (seq (sleep 5)
          (seq (print ''Testing PNG export...'' [])
          (bind (get (export_url_of str presentation_id ''png'') (Some 30) r_get) (\<lambda>export_response.
           seq (print ''Export response: HTTP {}'' [AInt (status_code export_response)])
           (seq (print ''Content-Type: {}'' [AStr (header export_response ''content-type'' ''unknown'')])
           (seq (print ''Content-Length: {} bytes'' [AInt (int (length (content export_response)))])
           (if status_code export_response = 200 then
              seq (makedirs ''screenshots'')
              (seq (write_file (''screenshots/export_test_'' @ str presentation_id @ ''.png'')
                      (content export_response))
              (seq (print ''Export successful: {}''
                      [AStr (''screenshots/export_test_'' @ str presentation_id @ ''.png'')])
              (seq (print ''Presentation ID: {}'' [AJson presentation_id])
              (seq (print ''Edit URL: https://docs.google.com/presentation/d/{}/edit''
                      [AJson presentation_id])
              (seq (print ''Public URL: https://docs.google.com/presentation/d/{}/pub''
                      [AJson presentation_id])
              (seq (print ''Export URL: {}'' [AStr (export_url_of str presentation_id ''png'')])
              (ret (Some (''screenshots/export_test_'' @ str presentation_id @ ''.png'')))))))))
            else
              seq (print ''Export failed: HTTP {}'' [AInt (status_code export_response)])
              (seq (print ''Response snippet: {}''
                      [AStr (if content export_response \<noteq> []
                             then take 200 (content export_response)
                             else ''No response body'')])
              (ret None)))))))))))))))))"

section \<open>test_export_direct.py\<close>

definition direct_presentation_id :: string where
  "direct_presentation_id = ''1g0NMMjBk-IcUHRf9pbgl6KTn6BI-ddgHFnWQkGKl924''"

definition direct_export_url :: "string \<Rightarrow> string" where
  "direct_export_url fmt =
     ''https://docs.google.com/presentation/d/'' @ direct_presentation_id @ ''/export?format='' @ fmt"

text \<open>\<^verbatim>\<open>str.lower\<close> on the ASCII letters of a format name.\<close>

definition lower_char :: "char \<Rightarrow> char" where
  "lower_char c =
     (case map_of (zip ''ABCDEFGHIJKLMNOPQRSTUVWXYZ'' ''abcdefghijklmnopqrstuvwxyz'') c of
        Some l \<Rightarrow> l
      | None \<Rightarrow> c)"

text \<open>
  Lines 28 to 61: the loop over the items of \<^verbatim>\<open>export_urls\<close>, each with the reply its
  request gets.
\<close>

fun export_formats :: "(string \<times> string \<times> reply) list \<Rightarrow> unit io" where
  "export_formats [] = ret ()"
| "export_formats ((format_name, export_url, r) # rest) =
     seq (print ''Testing {} export: {}'' [AStr format_name, AStr export_url])
     (seq (try_except
             (bind (get export_url (Some 30) r) (\<lambda>response.
              seq (print ''Response: HTTP {}'' [AInt (status_code response)])
              (seq (print ''Content-Type: {}'' [AStr (header response ''content-type'' ''unknown'')])
              (seq (print ''Content-Length: {} bytes'' [AInt (int (length (content response)))])
              (if status_code response = 200 then
                 seq (write_file (''screenshots/working_font_demo.'' @ map lower_char format_name)
                        (content response))
                 (seq (print ''{} export saved: {}''
                         [AStr format_name,
                          AStr (''screenshots/working_font_demo.'' @ map lower_char format_name)])
                 (print ''File size: {} bytes'' [AInt (int (length (content response)))]))
               else if status_code response = 401 then
                 print ''{} export failed: HTTP 401 Unauthorized'' [AStr format_name]
               else
                 seq (print ''{} export failed: HTTP {}''
                        [AStr format_name, AInt (status_code response)])
                 (if content response \<noteq> []
                  then print ''Error preview: {}...'' [AStr (take 100 (content response))]
                  else ret ()))))))
             (\<lambda>e. print ''{} export error: {}'' [AStr format_name, AExn e]))
     (seq (print [] [])
     (export_formats rest)))"

definition test_export_direct :: "reply \<Rightarrow> reply \<Rightarrow> reply \<Rightarrow> unit io" where
  "test_export_direct r_png r_svg r_pdf =
     seq (print ''TESTING EXPORT URLS WITH PROPER DRIVE API PUBLISHING'' [])
     (seq (print ''======================================================'' [])
     (seq (print ''Presentation ID: {}'' [AStr direct_presentation_id])
     (seq (print [] [])
     (seq (makedirs ''screenshots'')
     (seq (export_formats
             [(''PNG'', direct_export_url ''png'', r_png),
              (''SVG'', direct_export_url ''svg'', r_svg),
              (''PDF'', direct_export_url ''pdf'', r_pdf)])
     (seq (print ''FONT PAIR DEMONSTRATION STATUS'' [])
     (seq (print ''================================='' [])
     (seq (print ''Web API integration working'' [])
     (seq (print ''Font pair parsing implemented'' [])
     (seq (print ''Presentation creation functional'' [])
     (seq (print ''Drive API publishing method implemented'' [])
     (seq (print ''Presentation URLs:'' [])
     (seq (print ''Edit: https://docs.google.com/presentation/d/{}/edit'' [AStr direct_presentation_id])
     (seq (print ''Public: https://docs.google.com/presentation/d/{}/pub'' [AStr direct_presentation_id])
     (print ''Export results shown above'' [])))))))))))))))"

section \<open>Files written by a run\<close>

text \<open>The files a trace writes, in order, each with its bytes.\<close>

fun writes :: "event list \<Rightarrow> (string \<times> string) list" where
  "writes [] = []"
| "writes (WriteFile p c # es) = (p, c) # writes es"
| "writes (e # es) = writes es"

text \<open>
  The files of the file system, by path, after the effects of a trace: each write stores
  its bytes under its path, a later write over an earlier one.
\<close>

fun store :: "(string \<times> string) list \<Rightarrow> (string \<rightharpoonup> string) \<Rightarrow> (string \<rightharpoonup> string)" where
  "store [] fs = fs"
| "store ((p, c) # ws) fs = store ws (fs(p \<mapsto> c))"

definition files_after :: "event list \<Rightarrow> (string \<rightharpoonup> string) \<Rightarrow> (string \<rightharpoonup> string)" where
  "files_after tr fs = store (writes tr) fs"

text \<open>
  What the download of an export should write, given the reply to its request: the body
  under the path when the status is 200, nothing otherwise.
\<close>

definition expected_writes :: "string \<Rightarrow> reply \<Rightarrow> (string \<times> string) list" where
  "expected_writes path r =
     (case r of
        Inl e \<Rightarrow> []
      | Inr resp \<Rightarrow> if status_code resp = 200 then [(path, content resp)] else [])"

definition answered :: "reply \<Rightarrow> bool" where
  "answered r = (case r of Inl e \<Rightarrow> False | Inr resp \<Rightarrow> True)"

text \<open>A response with status 200 and the given body.\<close>

definition resp_bytes :: "string \<Rightarrow> response" where
  "resp_bytes b = \<lparr>status_code = 200, headers = [(''content-type'', ''image/png'')],
     content = b, parsed = None\<rparr>"

section \<open>The specification extractor\<close>

text \<open>
  Modelled from the spec: the extractor that recovers a font pair and a colour palette
  from a prompt runs in the remote web application (the function \<^verbatim>\<open>testFontParsing\<close>
  that test_font_parsing_final.py calls); the sources hold its callers only. The
  definitions of this section follow sections 3 and 4.1 of the specification. Where its
  words leave a choice, the choice is stated with the definition.
\<close>

text \<open>Modelled from the spec: \<^verbatim>\<open>FontPair {heading, body}\<close> of the data model.\<close>

record FontPair =
  heading :: string
  body :: string

text \<open>Modelled from the spec: \<^verbatim>\<open>ColorPalette {sourceUrl, hexCodes}\<close> of the data model.\<close>

record ColorPalette =
  sourceUrl :: string
  hexCodes :: "string list"

text \<open>Modelled from the spec: the capital letters that open a word of a font family.\<close>

definition is_upper :: "char \<Rightarrow> bool" where
  "is_upper c = (c \<in> set ''ABCDEFGHIJKLMNOPQRSTUVWXYZ'')"

text \<open>Modelled from the spec: the characters of a word, letters and digits.\<close>

definition word_char :: "char \<Rightarrow> bool" where
  "word_char c =
     (c \<in> set ''ABCDEFGHIJKLMNOPQRSTUVWXYZabcdefghijklmnopqrstuvwxyz0123456789'')"

text \<open>Modelled from the spec: a hex digit, in either case.\<close>

definition is_hex :: "char \<Rightarrow> bool" where
  "is_hex c = (c \<in> set ''0123456789abcdefABCDEF'')"

text \<open>Modelled from the spec: white space, which ends an address and separates words.\<close>

definition is_space :: "char \<Rightarrow> bool" where
  "is_space c = (c \<in> {CHR '' '', CHR 0x09, CHR 0x0A, CHR 0x0D})"

text \<open>
  Modelled from the spec: "split on \<^verbatim>\<open>-\<close>". The pieces of a text between the
  occurrences of a separator, in order; a text without the separator is its one piece.
\<close>

fun split_on :: "char \<Rightarrow> string \<Rightarrow> string list" where
  "split_on d [] = [[]]"
| "split_on d (c # cs) =
     (if c = d then [] # split_on d cs
      else (case split_on d cs of [] \<Rightarrow> [[c]] | w # ws \<Rightarrow> (c # w) # ws))"

text \<open>Modelled from the spec: a capitalized token, a capital letter followed by word characters.\<close>

definition cap_word :: "string \<Rightarrow> bool" where
  "cap_word w = (case w of [] \<Rightarrow> False | c # cs \<Rightarrow> is_upper c \<and> list_all word_char cs)"

text \<open>
  Modelled from the spec: a font-family-like segment, as in "Playfair Display": one or
  more capitalized tokens, separated by single spaces.
\<close>

definition family_name :: "string \<Rightarrow> bool" where
  "family_name s = list_all cap_word (split_on CHR '' '' s)"

text \<open>
  Modelled from the spec: "the segment left of the last \<^verbatim>\<open>/\<close>". The longest font
  family that ends the text; empty when there is none.
\<close>

fun trailing_family :: "string \<Rightarrow> string" where
  "trailing_family [] = []"
| "trailing_family (c # cs) = (if family_name (c # cs) then c # cs else trailing_family cs)"

text \<open>
  Modelled from the spec: "the word fonts (case-insensitive)". The text begins with the
  five letters, in any case, and no word character follows them.
\<close>

definition fonts_at :: "string \<Rightarrow> bool" where
  "fonts_at s =
     (map lower_char (take 5 s) = ''fonts'' \<and>
      (case drop 5 s of [] \<Rightarrow> True | c # cs \<Rightarrow> \<not> word_char c))"

text \<open>
  Modelled from the spec: the candidate match that ends where the word "fonts" begins.
  The text seen so far must end in white space; before that, the segment right of the
  last \<^verbatim>\<open>/\<close> is the body and must be a font family, and the font family that ends
  the text left of that \<^verbatim>\<open>/\<close> is the heading and must not be empty.
\<close>

definition candidate :: "string \<Rightarrow> FontPair option" where
  "candidate seen =
     (let t = rev (dropWhile is_space (rev seen)) in
      if t = seen \<or> CHR ''/'' \<notin> set t then None
      else
        let right = rev (takeWhile (\<lambda>c. c \<noteq> CHR ''/'') (rev t));
            left = rev (tl (dropWhile (\<lambda>c. c \<noteq> CHR ''/'') (rev t)));
            h = trailing_family left
        in if family_name right \<and> h \<noteq> [] then Some \<lparr>heading = h, body = right\<rparr> else None)"

text \<open>
  Modelled from the spec: the "deterministic left-to-right scan", in which the first match
  in reading order wins. The scan moves through the prompt with the text already seen;
  at each occurrence of the word "fonts" it returns the candidate that ends there, if
  there is one, and otherwise goes on. No match is the absent result.
\<close>

fun scan_fonts :: "string \<Rightarrow> string \<Rightarrow> FontPair option" where
  "scan_fonts seen [] = None"
| "scan_fonts seen (c # cs) =
     (if fonts_at (c # cs) then
        (case candidate seen of
           Some fp \<Rightarrow> Some fp
         | None \<Rightarrow> scan_fonts (seen @ [c]) cs)
      else scan_fonts (seen @ [c]) cs)"

text \<open>Modelled from the spec: the font-pair recognition of section 4.1.\<close>

definition extract_fonts :: "string \<Rightarrow> FontPair option" where
  "extract_fonts prompt = scan_fonts [] prompt"

text \<open>
  Modelled from the spec: the "known palette-service path pattern". The specification
  does not name the service; the prompts of the repository use this address.
\<close>

definition palette_prefix :: string where
  "palette_prefix = ''https://coolors.co/''"

text \<open>Modelled from the spec: a token that is "exactly 6 hex digits".\<close>

definition valid_hex :: "string \<Rightarrow> bool" where
  "valid_hex t = (length t = 6 \<and> list_all is_hex t)"

text \<open>
  Modelled from the spec: the scan for the palette address. The first occurrence of the
  pattern in the prompt, up to the next white space or the end of the prompt.
\<close>

fun find_palette_url :: "string \<Rightarrow> string option" where
  "find_palette_url [] = None"
| "find_palette_url (c # cs) =
     (if starts_with palette_prefix (c # cs)
      then Some (takeWhile (\<lambda>x. \<not> is_space x) (c # cs))
      else find_palette_url cs)"

text \<open>
  Modelled from the spec: the palette recognition of section 4.1. The path of the address
  is split on \<^verbatim>\<open>-\<close>; the tokens, in the order of the address, are the palette when each
  of them is valid, and the palette is absent when one is not. The specification bounds
  the number of entries in the data model only, not in the extraction; no bound is
  applied here.
\<close>

definition extract_palette :: "string \<Rightarrow> ColorPalette option" where
  "extract_palette prompt =
     (case find_palette_url prompt of
        None \<Rightarrow> None
      | Some url \<Rightarrow>
          let tokens = split_on CHR ''-'' (drop (length palette_prefix) url) in
          if list_all valid_hex tokens
          then Some \<lparr>sourceUrl = url, hexCodes = tokens\<rparr>
          else None)"

text \<open>
  Modelled from the spec: \<^verbatim>\<open>extract(promptText) -> (FontPair?, ColorPalette?)\<close>. The two
  recognitions run on the same prompt, neither reading the result of the other.
\<close>

definition extract_spec :: "string \<Rightarrow> FontPair option \<times> ColorPalette option" where
  "extract_spec promptText = (extract_fonts promptText, extract_palette promptText)"

subsection \<open>Palette addresses\<close>

text \<open>The tokens of a palette address, joined with \<^verbatim>\<open>-\<close> as the address has them.\<close>

fun join_dash :: "string list \<Rightarrow> string" where
  "join_dash [] = []"
| "join_dash [t] = t"
| "join_dash (t # u # ts) = t @ ''-'' @ join_dash (u # ts)"

section \<open>Properties of the effect model\<close>

lemma fst_bind: "fst (bind m f) = (case snd m of Inl e \<Rightarrow> fst m | Inr x \<Rightarrow> fst m @ fst (f x))"
  by (cases m) (auto simp: bind_def split: sum.splits prod.splits)

lemma snd_bind: "snd (bind m f) = (case snd m of Inl e \<Rightarrow> Inl e | Inr x \<Rightarrow> snd (f x))"
  by (cases m) (auto simp: bind_def split: sum.splits prod.splits)

lemma fst_seq: "fst (seq m k) = (case snd m of Inl e \<Rightarrow> fst m | Inr x \<Rightarrow> fst m @ fst k)"
  by (simp add: seq_def fst_bind)

lemma snd_seq: "snd (seq m k) = (case snd m of Inl e \<Rightarrow> Inl e | Inr x \<Rightarrow> snd k)"
  by (simp add: seq_def snd_bind)

lemma io_simps:
  "fst (print s as) = [Print s as]" "snd (print s as) = Inr ()"
  "fst (emit e) = [e]" "snd (emit e) = Inr ()"
  "fst (ret x) = []" "snd (ret x) = Inr x"
  "fst (lift v) = []" "snd (lift v) = v"
  "fst (post u p t r) = [Post u p t]" "snd (post u p t r) = r"
  "fst (get u' t' r') = [Get u' t']" "snd (get u' t' r') = r'"
  by (simp_all add: print_def emit_def ret_def lift_def post_def get_def)

lemmas io_defs = bind_def seq_def ret_def lift_def emit_def print_def post_def get_def
  try_except_def try_finally_def

section \<open>Properties of the browser steps\<close>

lemma fst_try_except:
  "fst (try_except m h) = (case snd m of Inl e \<Rightarrow> fst m @ fst (h e) | Inr x \<Rightarrow> fst m)"
  by (cases m) (auto simp: try_except_def split: sum.splits prod.splits)

lemma snd_try_except:
  "snd (try_except m h) = (case snd m of Inl e \<Rightarrow> snd (h e) | Inr x \<Rightarrow> Inr x)"
  by (cases m) (auto simp: try_except_def split: sum.splits prod.splits)

lemma fst_try_finally: "fst (try_finally m c) = fst m @ fst c"
  by (cases m; cases c) (auto simp: try_finally_def split: sum.splits)

lemma snd_try_finally:
  "snd (try_finally m c) = (case snd c of Inl e \<Rightarrow> Inl e | Inr u \<Rightarrow> snd m)"
  by (cases m; cases c) (auto simp: try_finally_def split: sum.splits)

lemma step_simps:
  "fst (install env) = [Install]" "snd (install env) = install_result env"
  "fst (chrome env s a) = [Launch s a]" "snd (chrome env s a) = outcome_of (launch_result env)"
  "fst (driver_get env u) = [Navigate u]" "snd (driver_get env u) = outcome_of (navigate_result env u)"
  "fst (save_screenshot env p) = [SaveScreenshot p]" "snd (save_screenshot env p) = save_result env p"
  "fst (driver_quit env) = [Quit]" "snd (driver_quit env) = outcome_of (quit_result env)"
  "fst (sleep n) = [Sleep n]" "snd (sleep n) = Inr ()"
  "fst (makedirs d) = [Makedirs d]" "snd (makedirs d) = Inr ()"
  by (simp_all add: install_def chrome_def driver_get_def save_screenshot_def driver_quit_def
      sleep_def makedirs_def emit_def)

lemmas run_simps = fst_bind snd_bind fst_seq snd_seq fst_try_except snd_try_except
  fst_try_finally snd_try_finally io_simps step_simps

section \<open>Properties of create_font_comparison\<close>

lemma posts_append: "posts (a @ b) = posts a @ posts b"
  by (induction a rule: posts.induct) auto

lemma posts_create_before: "posts (fst (create_before str r ps)) = [before_payload]"
  by (simp add: create_before_def fst_bind snd_bind fst_seq snd_seq io_simps posts_append
      split: sum.splits)

lemma posts_create_after: "posts (fst (create_after str r ps)) = [after_payload]"
  by (simp add: create_after_def fst_bind snd_bind fst_seq snd_seq io_simps posts_append
      split: sum.splits)

lemma display_ok: "snd (display ps) = Inr ()"
  by (induction ps) (simp_all add: snd_seq io_simps)

lemma posts_display: "posts (fst (display ps)) = []"
  by (induction ps) (simp_all add: fst_seq snd_seq io_simps posts_append display_ok)


text \<open>
  The styled request is issued exactly when the baseline phase did not raise, and then
  after the baseline request.
\<close>

lemma posts_create_font_comparison:
  "posts (fst (create_font_comparison str r1 r2)) =
     (case snd (create_before str r1 []) of
        Inl e \<Rightarrow> [before_payload]
      | Inr ps \<Rightarrow> [before_payload, after_payload])"
  by (simp add: create_font_comparison_def fst_bind snd_bind fst_seq snd_seq io_simps posts_append
       posts_create_before posts_create_after posts_display display_ok
      split: sum.splits)

lemma snd_create_before:
  "snd (create_before str r ps) =
     (case creation_outcome r of
        Faulted e \<Rightarrow> Inl e
      | oc \<Rightarrow> Inr (ps @ entries str ''BEFORE'' ''Default Fonts (Before)'' oc))"
proof (cases r)
  case (Inl e)
  then show ?thesis
    by (simp add: create_before_def creation_outcome_def snd_bind snd_seq io_simps)
next
  case (Inr resp)
  show ?thesis
  proof (cases "status_code resp = 200")
    case False
    with Inr show ?thesis
      by (simp add: create_before_def creation_outcome_def snd_bind snd_seq io_simps)
  next
    case True
    show ?thesis
    proof (cases "parsed resp")
      case None
      with Inr True show ?thesis
        by (simp add: create_before_def creation_outcome_def snd_bind snd_seq io_simps json_of_def)
    next
      case (Some j)
      have "snd (create_before str r ps) =
         (case body_outcome j of Faulted e \<Rightarrow> Inl e
          | oc \<Rightarrow> Inr (ps @ entries str ''BEFORE'' ''Default Fonts (Before)'' oc))"
        using Inr True Some
        by (cases j)
          (auto simp: create_before_def snd_bind snd_seq io_simps json_of_def
             split: option.splits json.splits)
      with Inr True Some show ?thesis
        by (simp add: creation_outcome_def)
    qed
  qed
qed

lemma snd_create_after:
  "snd (create_after str r ps) =
     (case creation_outcome r of
        Faulted e \<Rightarrow> Inl e
      | oc \<Rightarrow> Inr (ps @ entries str ''AFTER'' ''Merriweather/Inter Fonts (After)'' oc))"
proof (cases r)
  case (Inl e)
  then show ?thesis
    by (simp add: create_after_def creation_outcome_def snd_bind snd_seq io_simps)
next
  case (Inr resp)
  show ?thesis
  proof (cases "status_code resp = 200")
    case False
    with Inr show ?thesis
      by (simp add: create_after_def creation_outcome_def snd_bind snd_seq io_simps)
  next
    case True
    show ?thesis
    proof (cases "parsed resp")
      case None
      with Inr True show ?thesis
        by (simp add: create_after_def creation_outcome_def snd_bind snd_seq io_simps json_of_def)
    next
      case (Some j)
      have "snd (create_after str r ps) =
         (case body_outcome j of Faulted e \<Rightarrow> Inl e
          | oc \<Rightarrow> Inr (ps @ entries str ''AFTER'' ''Merriweather/Inter Fonts (After)'' oc))"
        using Inr True Some
        by (cases j)
          (auto simp: create_after_def snd_bind snd_seq io_simps json_of_def
             split: option.splits json.splits)
      with Inr True Some show ?thesis
        by (simp add: creation_outcome_def)
    qed
  qed
qed

text \<open>
  Claim C1, as the code has it. The claim says that the comparison returns both results
  whatever each creation comes to, and fails as a whole only when the transport is
  unreachable for both calls. \<^verbatim>\<open>create_font_comparison\<close> returns the list
  \<^verbatim>\<open>presentations\<close>, to which only a successful creation appends. What holds: in every
  run in which neither creation raises, both requests are issued, baseline first, and the
  returned list holds exactly the presentations that were created, BEFORE ahead of AFTER;
  a creation that failed (a status other than 200, or a \<^verbatim>\<open>success\<close> that is not true)
  leaves no entry and does not keep the other from being requested and reported.
\<close>

theorem create_font_comparison_returns_created:
  assumes "\<not> is_fault (creation_outcome r1)" and "\<not> is_fault (creation_outcome r2)"
  shows "snd (create_font_comparison str r1 r2) =
           Inr (entries str ''BEFORE'' ''Default Fonts (Before)'' (creation_outcome r1) @
                entries str ''AFTER'' ''Merriweather/Inter Fonts (After)'' (creation_outcome r2)) \<and>
         posts (fst (create_font_comparison str r1 r2)) = [before_payload, after_payload]"
proof -
  obtain ps where b: "snd (create_before str r1 []) = Inr ps"
    and ps: "ps = entries str ''BEFORE'' ''Default Fonts (Before)'' (creation_outcome r1)"
    using assms(1) by (cases "creation_outcome r1") (simp_all add: snd_create_before)
  obtain qs where a: "snd (create_after str r2 ps) = Inr qs"
    and qs: "qs = ps @ entries str ''AFTER'' ''Merriweather/Inter Fonts (After)'' (creation_outcome r2)"
    using assms(2) by (cases "creation_outcome r2") (simp_all add: snd_create_after)
  have "snd (create_font_comparison str r1 r2) = Inr qs"
    using a b by (simp add: create_font_comparison_def snd_bind snd_seq io_simps display_ok)
  moreover have "posts (fst (create_font_comparison str r1 r2)) = [before_payload, after_payload]"
    using b by (simp add: posts_create_font_comparison)
  ultimately show ?thesis using ps qs by simp
qed

text \<open>Both creations succeed: the list holds the two entries, BEFORE first.\<close>

theorem create_font_comparison_returns_created_witness:
  "snd (create_font_comparison str_id (Inr (resp_created ''a1'')) (Inr (resp_created ''b2''))) =
     Inr [\<lparr>p_type = ''BEFORE'', p_id = JStr ''a1'', p_title = ''Default Fonts (Before)'',
            p_edit_url = ''https://docs.google.com/presentation/d/a1/edit'',
            p_pub_url = ''https://docs.google.com/presentation/d/a1/pub''\<rparr>,
          \<lparr>p_type = ''AFTER'', p_id = JStr ''b2'', p_title = ''Merriweather/Inter Fonts (After)'',
            p_edit_url = ''https://docs.google.com/presentation/d/b2/edit'',
            p_pub_url = ''https://docs.google.com/presentation/d/b2/pub''\<rparr>] \<and>
   posts (fst (create_font_comparison str_id (Inr (resp_created ''a1'')) (Inr (resp_created ''b2'')))) =
     [before_payload, after_payload]"
  using create_font_comparison_returns_created
    [of "Inr (resp_created ''a1'')" "Inr (resp_created ''b2'')" str_id]
  by (simp add: creation_outcome_def resp_created_def edit_url_of_def pub_url_of_def str_id_def)

text \<open>
  Claim C1 as stated fails. When the baseline call answers 500 and the styled creation
  succeeds, the returned list has the AFTER entry alone: nothing in it stands for the
  baseline. When the baseline call cannot reach the transport, the exception leaves the
  function: the run fails as a whole although the styled call, never issued, would have
  been answered.
\<close>

theorem create_font_comparison_counterexample:
  "snd (create_font_comparison str_id (Inr (resp_status 500)) (Inr (resp_created ''b2''))) =
     Inr [\<lparr>p_type = ''AFTER'', p_id = JStr ''b2'', p_title = ''Merriweather/Inter Fonts (After)'',
            p_edit_url = ''https://docs.google.com/presentation/d/b2/edit'',
            p_pub_url = ''https://docs.google.com/presentation/d/b2/pub''\<rparr>] \<and>
   snd (create_font_comparison str_id (Inl ConnectionError) (Inr (resp_created ''b2''))) =
     Inl ConnectionError \<and>
   posts (fst (create_font_comparison str_id (Inl ConnectionError) (Inr (resp_created ''b2'')))) =
     [before_payload]"
  by (simp add: create_font_comparison_def create_before_def create_after_def io_defs
      resp_status_def resp_created_def json_of_def edit_url_of_def pub_url_of_def str_id_def)



section \<open>Properties of the creation request\<close>

lemma test_api_main_returns: "snd (test_api_main r) = Inr ()"
  by (simp add: test_api_main_def snd_seq snd_try_except io_simps split: sum.splits)

text \<open>
  Claim C2, as the code has it. The claim says that a creation maps a non-2xx response or
  a malformed body to a result with \<^verbatim>\<open>success=false\<close> and an error string that begins
  with \<^verbatim>\<open>transport:\<close>, and never raises. The scripts build no such result. What holds:
  \<^verbatim>\<open>main\<close> of test_api.py lets no exception out, whatever the reply; it reports a status
  other than 200 by printing the status and the body, and a body that is not JSON or a
  call that raised by printing the exception; \<^verbatim>\<open>create_presentation_via_api\<close> maps a
  status other than 200 to \<^verbatim>\<open>None\<close> after printing the status.
\<close>

theorem transport_failure_is_reported:
  "snd (test_api_main r) = Inr () \<and>
   (status_code resp \<noteq> 200 \<longrightarrow>
      test_api_main (Inr resp) =
        ([Print ''Calling Web API to create presentation...'' [],
          Post web_app_url api_payload (Some 30),
          Print ''HTTP Error: {}'' [AInt (status_code resp)],
          Print ''{}'' [AStr (content resp)]], Inr ()) \<and>
      create_presentation_via_api str (Inr resp) =
        ([Print ''Calling Web API to create presentation...'' [],
          Post web_app_url api_payload None,
          Print ''HTTP Error: {}'' [AInt (status_code resp)]], Inr None)) \<and>
   (status_code resp' = 200 \<and> parsed resp' = None \<longrightarrow>
      test_api_main (Inr resp') =
        ([Print ''Calling Web API to create presentation...'' [],
          Post web_app_url api_payload (Some 30),
          Print ''Error: {}'' [AExn JSONDecodeError]], Inr ())) \<and>
   test_api_main (Inl e) =
     ([Print ''Calling Web API to create presentation...'' [],
       Post web_app_url api_payload (Some 30),
       Print ''Error: {}'' [AExn e]], Inr ())"
proof -
  have 1: "snd (test_api_main r) = Inr ()" by (rule test_api_main_returns)
  have 2: "test_api_main (Inr resp) =
        ([Print ''Calling Web API to create presentation...'' [],
          Post web_app_url api_payload (Some 30),
          Print ''HTTP Error: {}'' [AInt (status_code resp)],
          Print ''{}'' [AStr (content resp)]], Inr ())" if "status_code resp \<noteq> 200"
    using that by (simp add: test_api_main_def io_defs)
  have 3: "create_presentation_via_api str (Inr resp) =
        ([Print ''Calling Web API to create presentation...'' [],
          Post web_app_url api_payload None,
          Print ''HTTP Error: {}'' [AInt (status_code resp)]], Inr None)" if "status_code resp \<noteq> 200"
    using that by (simp add: create_presentation_via_api_def io_defs)
  have 4: "test_api_main (Inr resp') =
        ([Print ''Calling Web API to create presentation...'' [],
          Post web_app_url api_payload (Some 30),
          Print ''Error: {}'' [AExn JSONDecodeError]], Inr ())"
    if "status_code resp' = 200" "parsed resp' = None"
    using that by (simp add: test_api_main_def io_defs json_of_def)
  have 5: "test_api_main (Inl e) =
     ([Print ''Calling Web API to create presentation...'' [],
       Post web_app_url api_payload (Some 30),
       Print ''Error: {}'' [AExn e]], Inr ())"
    by (simp add: test_api_main_def io_defs)
  from 1 2 3 4 5 show ?thesis by blast
qed

text \<open>A reply with status 500, a body that is not JSON, and a call that timed out.\<close>

theorem transport_failure_is_reported_witness:
  "test_api_main (Inr (resp_status 500)) =
     ([Print ''Calling Web API to create presentation...'' [],
       Post web_app_url api_payload (Some 30),
       Print ''HTTP Error: {}'' [AInt 500],
       Print ''{}'' [AStr []]], Inr ()) \<and>
   create_presentation_via_api str_id (Inr (resp_status 500)) =
     ([Print ''Calling Web API to create presentation...'' [],
       Post web_app_url api_payload None,
       Print ''HTTP Error: {}'' [AInt 500]], Inr None) \<and>
   test_api_main (Inr resp_malformed) =
     ([Print ''Calling Web API to create presentation...'' [],
       Post web_app_url api_payload (Some 30),
       Print ''Error: {}'' [AExn JSONDecodeError]], Inr ())"
  using transport_failure_is_reported
    [of "Inl Timeout" "resp_status 500" str_id resp_malformed Timeout]
  by (simp add: resp_status_def resp_malformed_def)

text \<open>
  Claim C2 as stated fails. On a reply with status 500, \<^verbatim>\<open>create_presentation_via_api\<close>
  returns \<^verbatim>\<open>None\<close>: no result with a success flag, and no error string that begins with
  \<^verbatim>\<open>transport:\<close>, only the printed status. On a body that is not JSON and on a call
  that cannot reach the transport, the exception leaves the function.
\<close>

theorem create_presentation_via_api_counterexample:
  "create_presentation_via_api str_id (Inr (resp_status 500)) =
     ([Print ''Calling Web API to create presentation...'' [],
       Post web_app_url api_payload None,
       Print ''HTTP Error: {}'' [AInt 500]], Inr None) \<and>
   snd (create_presentation_via_api str_id (Inr resp_malformed)) = Inl JSONDecodeError \<and>
   snd (create_presentation_via_api str_id (Inl ConnectionError)) = Inl ConnectionError"
  by (simp add: create_presentation_via_api_def io_defs resp_status_def resp_malformed_def json_of_def)

section \<open>Properties of the captures\<close>

lemma first_fault_Cons:
  "first_fault (r # rs) = (case r of None \<Rightarrow> first_fault rs | Some e \<Rightarrow> Some e)"
  by (cases r) simp_all

lemma launches_append: "launches (a @ b) = launches a + launches b"
  by (induction a rule: launches.induct) auto

lemmas step_defs = install_def chrome_def driver_get_def save_screenshot_def driver_quit_def
  sleep_def makedirs_def outcome_of_def

lemma final_fault:
  assumes "first_fault (final_steps env) = Some e"
  shows "snd (final_screenshot_main env) = Inr None"
    and "last (fst (final_screenshot_main env)) = Print ''Error: {}'' [AExn e]"
    and "launches (fst (final_screenshot_main env)) \<le> 1"
  using assms
  by (auto simp: final_screenshot_main_def final_steps_def fault_of_def run_simps first_fault_Cons
      outcome_of_def launches_append split: sum.splits option.splits)

lemma final_ok:
  assumes "first_fault (final_steps env) = None"
  shows "snd (final_screenshot_main env) = Inr (Some ''screenshots/working_presentation_demo.png'')"
  using assms
  by (auto simp: final_screenshot_main_def final_steps_def fault_of_def run_simps first_fault_Cons
      outcome_of_def split: sum.splits option.splits)

lemma debug_fault:
  assumes "first_fault (debug_steps env) = Some e"
  shows "snd (debug_screenshot_main env) = Inr None"
    and "Print ''Error: {}'' [AExn e] \<in> set (fst (debug_screenshot_main env))"
    and "launches (fst (debug_screenshot_main env)) \<le> 1"
  using assms
  by (auto simp: debug_screenshot_main_def debug_steps_def fault_of_def run_simps first_fault_Cons
      outcome_of_def launches_append split: sum.splits option.splits)

lemma quick_fault:
  assumes "first_fault (quick_try_steps env) = Some e"
  shows "Print ''Error: {}'' [AExn e] \<in> set (fst (quick_screenshot_main env))"
    and "launches (fst (quick_screenshot_main env)) = 1"
    and "Install \<notin> set (fst (quick_screenshot_main env))"
  using assms
  by (auto simp: quick_screenshot_main_def quick_try_steps_def fault_of_def run_simps first_fault_Cons
      outcome_of_def launches_append split: sum.splits option.splits)

text \<open>
  What \<^verbatim>\<open>main\<close> of quick_screenshot.py comes to, in every environment: it returns,
  unless the \<^verbatim>\<open>driver.quit()\<close> of its \<^verbatim>\<open>finally\<close> clause raises, and then that
  exception leaves it.
\<close>

lemma quick_screenshot_result:
  "snd (quick_screenshot_main env) =
     (case quick_quit_fault env of None \<Rightarrow> Inr () | Some e \<Rightarrow> Inl e)"
  by (simp add: quick_screenshot_main_def quick_quit_fault_def run_simps outcome_of_def
      split: option.splits sum.splits)

text \<open>
  Claim C6, as the code has it. The claim says that a strategy that raises is recorded as
  a failure with its reason, that the pipeline then advances to the next strategy in the
  order explicit driver, managed driver, visible browser, and that the last failure is
  returned when all fail. In the code each strategy is an entry point of its own
  (quick_screenshot.py, final_screenshot.py, debug_screenshot.py) and none calls another.
  What holds: a run of one of them in which a step guarded by its \<^verbatim>\<open>except\<close> clause
  raises catches the exception and prints it as \<^verbatim>\<open>Error: <reason>\<close>, and starts at most
  one browser, so never tries again. The runs of final_screenshot.py and
  debug_screenshot.py then return \<^verbatim>\<open>None\<close>. The run of quick_screenshot.py installs no
  driver and returns, with no value, whenever the \<^verbatim>\<open>driver.quit()\<close> of its
  \<^verbatim>\<open>finally\<close> clause does not raise.
\<close>

theorem strategy_fault_is_reported_once:
  assumes "first_fault (quick_try_steps env1) = Some e1"
    and "first_fault (final_steps env2) = Some e2"
    and "first_fault (debug_steps env3) = Some e3"
  shows "Print ''Error: {}'' [AExn e1] \<in> set (fst (quick_screenshot_main env1)) \<and>
         launches (fst (quick_screenshot_main env1)) = 1 \<and>
         Install \<notin> set (fst (quick_screenshot_main env1)) \<and>
         (quick_quit_fault env1 = None \<longrightarrow> snd (quick_screenshot_main env1) = Inr ()) \<and>
         snd (final_screenshot_main env2) = Inr None \<and>
         last (fst (final_screenshot_main env2)) = Print ''Error: {}'' [AExn e2] \<and>
         launches (fst (final_screenshot_main env2)) \<le> 1 \<and>
         snd (debug_screenshot_main env3) = Inr None \<and>
         Print ''Error: {}'' [AExn e3] \<in> set (fst (debug_screenshot_main env3)) \<and>
         launches (fst (debug_screenshot_main env3)) \<le> 1"
  using quick_fault [OF assms(1)] final_fault [OF assms(2)] debug_fault [OF assms(3)]
    quick_screenshot_result [of env1]
  by simp

text \<open>
  A navigation that times out in the explicit-driver and the managed-driver run, and a
  browser that cannot be started in the visible run.
\<close>

theorem strategy_fault_is_reported_once_witness:
  "Print ''Error: {}'' [AExn (WebDriverException ''timeout'')]
     \<in> set (fst (quick_screenshot_main browser_nav_fault)) \<and>
   launches (fst (quick_screenshot_main browser_nav_fault)) = 1 \<and>
   snd (quick_screenshot_main browser_nav_fault) = Inr () \<and>
   snd (final_screenshot_main browser_nav_fault) = Inr None \<and>
   last (fst (final_screenshot_main browser_nav_fault)) =
     Print ''Error: {}'' [AExn (WebDriverException ''timeout'')] \<and>
   snd (debug_screenshot_main browser_no_driver) = Inr None"
proof -
  have 1: "first_fault (quick_try_steps browser_nav_fault) = Some (WebDriverException ''timeout'')"
    by (simp add: quick_try_steps_def browser_nav_fault_def browser_ok_def)
  have 2: "first_fault (final_steps browser_nav_fault) = Some (WebDriverException ''timeout'')"
    by (simp add: final_steps_def browser_nav_fault_def browser_ok_def fault_of_def)
  have 3: "first_fault (debug_steps browser_no_driver) =
      Some (WebDriverException ''chromedriver not found'')"
    by (simp add: debug_steps_def browser_no_driver_def browser_ok_def fault_of_def)
  have 4: "quick_quit_fault browser_nav_fault = None"
    by (simp add: quick_quit_fault_def browser_nav_fault_def browser_ok_def)
  show ?thesis
    using strategy_fault_is_reported_once [OF 1 2 3] 4 by simp
qed

text \<open>
  Claim C6 as stated fails. When the explicit driver cannot be started, the run of
  quick_screenshot.py ends after printing the error: no driver is installed and no second
  browser is started, so no other strategy is attempted, and the value returned is
  \<^verbatim>\<open>None\<close>, not a failure that carries the reason.
\<close>

theorem no_fallback_counterexample:
  "quick_screenshot_main browser_no_driver =
     ([Print ''Taking screenshot of: {}'' [AStr demo_pub_url],
       Launch (Some ''/opt/homebrew/bin/chromedriver'')
         [''--headless'', ''--no-sandbox'', ''--disable-dev-shm-usage'', ''--window-size=1200,800''],
       Print ''Error: {}'' [AExn (WebDriverException ''chromedriver not found'')]],
      Inr ())"
  by (simp add: quick_screenshot_main_def io_defs step_defs browser_no_driver_def browser_ok_def)

text \<open>
  The scripts that release the browser in a \<^verbatim>\<open>finally\<close> clause end every run in which
  the browser was started with \<^verbatim>\<open>driver.quit()\<close>.
\<close>

lemma quick_screenshot_releases_driver:
  "launch_result env = None \<Longrightarrow> last (fst (quick_screenshot_main env)) = Quit"
  by (simp add: quick_screenshot_main_def run_simps split: sum.splits)

lemma screenshot_presentation_releases_driver:
  "launch_result env = None \<Longrightarrow>
   last (fst (screenshot_presentation ts env (Some pd))) = Quit"
  by (simp add: screenshot_presentation_def run_simps split: sum.splits)

lemma simple_screenshot_releases_driver:
  "launch_result env = None \<Longrightarrow>
   last (fst (simple_screenshot_presentation ts env)) = Quit"
  by (simp add: simple_screenshot_presentation_def run_simps split: sum.splits)

text \<open>
  Claim C7: the browser is released on every exit of a capture, success or failure. The
  claim fails in final_screenshot.py and debug_screenshot.py, which call
  \<^verbatim>\<open>driver.quit()\<close> at the end of the \<^verbatim>\<open>try\<close> only: when the browser has started
  and the navigation times out, the run ends without \<^verbatim>\<open>Quit\<close>. In the same environment
  quick_screenshot.py, which quits in its \<^verbatim>\<open>finally\<close> clause, releases the browser.
\<close>

theorem final_screenshot_leaks_driver:
  "fst (final_screenshot_main browser_nav_fault) =
     [Print ''Taking screenshot of: {}'' [AStr demo_pub_url],
      Install,
      Launch (Some ''/drivers/chromedriver'')
        [''--headless'', ''--no-sandbox'', ''--disable-dev-shm-usage'',
         ''--window-size=1200,800'', ''--disable-gpu''],
      Navigate demo_pub_url,
      Print ''Error: {}'' [AExn (WebDriverException ''timeout'')]] \<and>
   Quit \<notin> set (fst (final_screenshot_main browser_nav_fault)) \<and>
   Quit \<notin> set (fst (debug_screenshot_main browser_nav_fault)) \<and>
   Quit \<in> set (fst (quick_screenshot_main browser_nav_fault))"
  by (simp add: final_screenshot_main_def debug_screenshot_main_def quick_screenshot_main_def
      io_defs step_defs browser_nav_fault_def browser_ok_def)

text \<open>
  Claim C9, as the code has it. The claim says that every capture of a public target
  waits strictly less than a capture of an edit target. What holds:
  \<^verbatim>\<open>screenshot_presentation\<close>, the one routine that captures both views, waits 5 seconds
  before capturing the public view and 8 seconds before capturing the edit view, in every
  run that captures both.
\<close>

theorem public_wait_is_shorter_in_screenshot_presentation:
  assumes "snd (screenshot_presentation ts env (Some pd)) = Inr (Some shots)"
  shows "\<exists>a b. settle_waits None (fst (screenshot_presentation ts env (Some pd))) =
                 [(pub_url pd, a), (edit_url pd, b)] \<and> a = 5 \<and> b = 8 \<and> a < b"
  using assms
  by (auto simp: screenshot_presentation_def run_simps outcome_of_def
      split: sum.splits option.splits if_splits)

text \<open>A run in which every step succeeds.\<close>

theorem public_wait_is_shorter_in_screenshot_presentation_witness:
  "\<exists>a b. settle_waits None (fst (screenshot_presentation ''20250101_120000'' browser_ok (Some demo_data))) =
          [(demo_pub_url, a), (demo_edit_url, b)] \<and> a = 5 \<and> b = 8 \<and> a < b"
proof -
  have "snd (screenshot_presentation ''20250101_120000'' browser_ok (Some demo_data)) =
      Inr (Some \<lparr>pub_screenshot = ''screenshots/font_demo_public_20250101_120000.png'',
                 edit_screenshot = ''screenshots/font_demo_edit_20250101_120000.png''\<rparr>)"
    by (simp add: screenshot_presentation_def io_defs step_defs browser_ok_def demo_data_def)
  from public_wait_is_shorter_in_screenshot_presentation [OF this]
  show ?thesis by (simp add: demo_data_def)
qed

text \<open>
  Claim C9 as stated fails. The capture of the public view in debug_screenshot.py waits
  10 seconds and the one in simple_screenshot.py 8 seconds: neither is shorter than the
  8 seconds that \<^verbatim>\<open>screenshot_presentation\<close> waits before capturing the edit view.
\<close>

theorem public_wait_counterexample:
  "settle_waits None (fst (debug_screenshot_main browser_ok)) = [(demo_pub_url, 10)] \<and>
   settle_waits None (fst (simple_screenshot_presentation ''20250101_120000'' browser_ok)) =
     [(demo_pub_url, 8)] \<and>
   settle_waits None (fst (screenshot_presentation ''20250101_120000'' browser_ok (Some demo_data))) =
     [(demo_pub_url, 5), (demo_edit_url, 8)] \<and>
   \<not> (10 < (8::nat))"
  by (simp add: debug_screenshot_main_def simple_screenshot_presentation_def
      screenshot_presentation_def io_defs step_defs browser_ok_def demo_data_def)

section \<open>Properties of the export downloads\<close>

lemma writes_append: "writes (a @ b) = writes a @ writes b"
  by (induction a rule: writes.induct) auto

lemma write_file_simps:
  "fst (write_file p c) = [WriteFile p c]" "snd (write_file p c) = Inr ()"
  by (simp_all add: write_file_def emit_def)

lemma writes_export_presentation_screenshots:
  "writes (fst (export_presentation_screenshots ts r1 r2)) =
     expected_writes (''screenshots/font_demo_export_'' @ ts @ ''.png'') r1 @
     (if answered r1 then expected_writes (''screenshots/font_demo_export_'' @ ts @ ''.svg'') r2 else [])"
  by (cases r1; cases r2)
     (simp_all add: export_presentation_screenshots_def run_simps write_file_simps writes_append
        expected_writes_def answered_def)

lemma snd_export_formats: "snd (export_formats xs) = Inr ()"
  by (induction xs rule: export_formats.induct)
     (simp_all add: run_simps write_file_simps split: sum.splits)

lemma writes_export_formats:
  "writes (fst (export_formats xs)) =
     concat (map (\<lambda>(n, u, r). expected_writes (''screenshots/working_font_demo.'' @ map lower_char n) r) xs)"
proof (induction xs rule: export_formats.induct)
  case 1
  show ?case by (simp add: run_simps)
next
  case (2 format_name export_url r rest)
  then show ?case
    by (cases r)
       (simp_all add: run_simps write_file_simps writes_append expected_writes_def snd_export_formats)
qed

lemma writes_test_export_direct:
  "writes (fst (test_export_direct r1 r2 r3)) =
     expected_writes ''screenshots/working_font_demo.png'' r1 @
     expected_writes ''screenshots/working_font_demo.svg'' r2 @
     expected_writes ''screenshots/working_font_demo.pdf'' r3"
  by (simp add: test_export_direct_def fst_seq snd_seq io_simps step_simps writes_append
      writes_export_formats snd_export_formats lower_char_def del: export_formats.simps)

lemma writes_test_create_and_export:
  "writes (fst (test_create_and_export str rp rg)) =
     (case creation_outcome rp of
        Created i \<Rightarrow> expected_writes (''screenshots/export_test_'' @ str i @ ''.png'') rg
      | NotCreated \<Rightarrow> []
      | Faulted e \<Rightarrow> [])"
proof (cases rp)
  case (Inl e)
  then show ?thesis
    by (simp add: test_create_and_export_def creation_outcome_def run_simps)
next
  case (Inr resp)
  show ?thesis
  proof (cases "status_code resp = 200")
    case False
    with Inr show ?thesis
      by (simp add: test_create_and_export_def creation_outcome_def run_simps)
  next
    case True
    show ?thesis
    proof (cases "parsed resp")
      case None
      with Inr True show ?thesis
        by (simp add: test_create_and_export_def creation_outcome_def run_simps json_of_def)
    next
      case (Some j)
      have "writes (fst (test_create_and_export str rp rg)) =
         (case body_outcome j of
            Created i \<Rightarrow> expected_writes (''screenshots/export_test_'' @ str i @ ''.png'') rg
          | NotCreated \<Rightarrow> []
          | Faulted e \<Rightarrow> [])"
        using Inr True Some
        by (cases j; cases rg)
          (auto simp: test_create_and_export_def run_simps write_file_simps writes_append
             json_of_def expected_writes_def
             split: option.splits json.splits)
      with Inr True Some show ?thesis
        by (simp add: creation_outcome_def)
    qed
  qed
qed

text \<open>
  Claim C10: a download of an export writes a file exactly when its GET request was
  answered with status 200, and any other answer leaves the files as they were. The files
  written by each of the three export routines are, for each request it issues, the body
  under the path of that format when the status is 200 and nothing otherwise
  (\<open>expected_writes\<close>); a request that raised, or was never issued because an earlier
  step ended the run, writes nothing. The files after a run are the files before it with
  these writes stored, so a run whose requests are all answered otherwise leaves them as
  they were. Writing a file is taken to succeed.
\<close>

theorem export_file_written_iff_status_200:
  "writes (fst (export_presentation_screenshots ts r1 r2)) =
     expected_writes (''screenshots/font_demo_export_'' @ ts @ ''.png'') r1 @
     (if answered r1
      then expected_writes (''screenshots/font_demo_export_'' @ ts @ ''.svg'') r2 else []) \<and>
   files_after (fst (export_presentation_screenshots ts r1 r2)) fs =
     store (expected_writes (''screenshots/font_demo_export_'' @ ts @ ''.png'') r1 @
            (if answered r1
             then expected_writes (''screenshots/font_demo_export_'' @ ts @ ''.svg'') r2 else [])) fs \<and>
   writes (fst (test_create_and_export str rp rg)) =
     (case creation_outcome rp of
        Created i \<Rightarrow> expected_writes (''screenshots/export_test_'' @ str i @ ''.png'') rg
      | NotCreated \<Rightarrow> []
      | Faulted e \<Rightarrow> []) \<and>
   files_after (fst (test_create_and_export str rp rg)) fs =
     (case creation_outcome rp of
        Created i \<Rightarrow> store (expected_writes (''screenshots/export_test_'' @ str i @ ''.png'') rg) fs
      | NotCreated \<Rightarrow> fs
      | Faulted e \<Rightarrow> fs) \<and>
   writes (fst (test_export_direct r3 r4 r5)) =
     expected_writes ''screenshots/working_font_demo.png'' r3 @
     expected_writes ''screenshots/working_font_demo.svg'' r4 @
     expected_writes ''screenshots/working_font_demo.pdf'' r5 \<and>
   files_after (fst (test_export_direct r3 r4 r5)) fs =
     store (expected_writes ''screenshots/working_font_demo.png'' r3 @
            expected_writes ''screenshots/working_font_demo.svg'' r4 @
            expected_writes ''screenshots/working_font_demo.pdf'' r5) fs"
  by (simp add: writes_export_presentation_screenshots writes_test_create_and_export
      writes_test_export_direct files_after_def split: outcome.splits)

text \<open>
  A PNG export answered 200 next to an SVG export answered 404; an export answered 401
  after a successful creation; a PDF export answered 200 after a 401 and a timeout.
\<close>

theorem export_file_written_iff_status_200_witness:
  "files_after (fst (export_presentation_screenshots ''20250101_120000''
       (Inr (resp_bytes ''PNG-bytes'')) (Inr (resp_status 404)))) Map.empty =
     [''screenshots/font_demo_export_20250101_120000.png'' \<mapsto> ''PNG-bytes''] \<and>
   files_after (fst (test_create_and_export str_id (Inr (resp_created ''a1''))
       (Inr (resp_status 401)))) Map.empty = Map.empty \<and>
   files_after (fst (test_export_direct (Inr (resp_status 401)) (Inl Timeout)
       (Inr (resp_bytes ''PDF-bytes'')))) Map.empty =
     [''screenshots/working_font_demo.pdf'' \<mapsto> ''PDF-bytes'']"
  using export_file_written_iff_status_200
    [where ts = "''20250101_120000''" and ?r1.0 = "Inr (resp_bytes ''PNG-bytes'')"
       and ?r2.0 = "Inr (resp_status 404)" and fs = Map.empty and str = str_id
       and rp = "Inr (resp_created ''a1'')" and rg = "Inr (resp_status 401)"
       and ?r3.0 = "Inr (resp_status 401)" and ?r4.0 = "Inl Timeout"
       and ?r5.0 = "Inr (resp_bytes ''PDF-bytes'')"]
  by (simp add: files_after_def expected_writes_def answered_def creation_outcome_def
      resp_bytes_def resp_status_def resp_created_def)

section \<open>Properties of the specification extractor\<close>

lemma starts_with_iff: "starts_with p s \<longleftrightarrow> (\<exists>r. s = p @ r)"
  by (induction p s rule: starts_with.induct) auto

lemma starts_with_append: "starts_with p (p @ r)"
  by (simp add: starts_with_iff)

lemma starts_with_shorten:
  assumes "starts_with p (xs @ p @ rest)" and "xs \<noteq> []"
  shows "starts_with p (xs @ butlast p)"
proof (cases "p = []")
  case True
  then show ?thesis by simp
next
  case False
  define q where "q = xs @ butlast p"
  define z where "z = last p # rest"
  from assms(1) obtain r where r: "xs @ p @ rest = p @ r" by (auto simp: starts_with_iff)
  have split: "xs @ p @ rest = q @ z"
  proof -
    have "p = butlast p @ [last p]" using False by simp
    then have "xs @ p @ rest = xs @ (butlast p @ [last p]) @ rest" by simp
    then show ?thesis by (simp add: q_def z_def)
  qed
  have len: "length p \<le> length q"
    using assms(2) by (cases xs) (auto simp: q_def)
  have "take (length p) (q @ z) = take (length p) q" using len by simp
  moreover have "take (length p) (q @ z) = p" using r split by simp
  ultimately have "q = p @ drop (length p) q" by (metis append_take_drop_id)
  then show ?thesis unfolding q_def [symmetric] by (metis starts_with_append)
qed

lemma palette_prefix_nonempty: "palette_prefix \<noteq> []"
  by (simp add: palette_prefix_def)

lemma find_palette_url_at:
  "find_palette_url (palette_prefix @ rest) =
     Some (takeWhile (\<lambda>x. \<not> is_space x) (palette_prefix @ rest))"
proof -
  obtain c cs where "palette_prefix @ rest = c # cs"
    using palette_prefix_nonempty by (cases "palette_prefix @ rest") auto
  moreover have "starts_with palette_prefix (palette_prefix @ rest)" by (rule starts_with_append)
  ultimately show ?thesis by simp
qed

lemma find_palette_url_skip:
  "\<not> contains palette_prefix (pre @ butlast palette_prefix) \<Longrightarrow>
   find_palette_url (pre @ palette_prefix @ rest) = find_palette_url (palette_prefix @ rest)"
proof (induction pre)
  case Nil
  show ?case by simp
next
  case (Cons c pre)
  from Cons.prems have no_here: "\<not> starts_with palette_prefix ((c # pre) @ butlast palette_prefix)"
    and no_later: "\<not> contains palette_prefix (pre @ butlast palette_prefix)"
    by simp_all
  have "\<not> starts_with palette_prefix ((c # pre) @ palette_prefix @ rest)"
    using no_here starts_with_shorten [of palette_prefix "c # pre" rest] by blast
  then show ?case using Cons.IH [OF no_later] by simp
qed

lemma takeWhile_url:
  assumes "\<forall>c \<in> set u. \<not> is_space c" and "aft = [] \<or> is_space (hd aft)"
  shows "takeWhile (\<lambda>x. \<not> is_space x) (u @ aft) = u"
  using assms by (cases aft) (auto simp: takeWhile_append)

lemma split_on_no_delim: "d \<notin> set t \<Longrightarrow> split_on d t = [t]"
  by (induction t) auto

lemma split_on_append:
  "d \<notin> set t \<Longrightarrow> split_on d (t @ d # rest) = t # split_on d rest"
  by (induction t) auto

lemma split_on_join_dash:
  "ts \<noteq> [] \<Longrightarrow> \<forall>t \<in> set ts. CHR ''-'' \<notin> set t \<Longrightarrow> split_on CHR ''-'' (join_dash ts) = ts"
proof (induction ts rule: join_dash.induct)
  case 1
  then show ?case by simp
next
  case (2 t)
  then show ?case by (simp add: split_on_no_delim)
next
  case (3 t u ts)
  then show ?case by (simp add: split_on_append)
qed

lemma set_join_dash: "set (join_dash ts) \<subseteq> (\<Union>t \<in> set ts. set t) \<union> {CHR ''-''}"
  by (induction ts rule: join_dash.induct) auto

lemma palette_prefix_no_space: "\<forall>c \<in> set palette_prefix. \<not> is_space c"
  by (simp add: palette_prefix_def is_space_def)

text \<open>
  Claim C5: the palette address is split on \<^verbatim>\<open>-\<close>, each token is validated as exactly
  six hex digits, and the codes of the palette are the tokens in the order of the address;
  when a token fails the validation the whole palette is absent. Here the address is the
  first in the prompt, its tokens \<open>ts\<close> hold neither \<^verbatim>\<open>-\<close> nor white space, and white
  space or the end of the prompt follows it.
\<close>

theorem palette_all_or_nothing:
  assumes "\<not> contains palette_prefix (pre @ butlast palette_prefix)"
    and "ts \<noteq> []"
    and "\<forall>t \<in> set ts. \<forall>c \<in> set t. c \<noteq> CHR ''-'' \<and> \<not> is_space c"
    and "aft = [] \<or> is_space (hd aft)"
  shows "snd (extract_spec (pre @ palette_prefix @ join_dash ts @ aft)) =
           (if list_all valid_hex ts
            then Some \<lparr>sourceUrl = palette_prefix @ join_dash ts, hexCodes = ts\<rparr>
            else None)"
proof -
  define url where "url = palette_prefix @ join_dash ts"
  have nodash: "\<forall>t \<in> set ts. CHR ''-'' \<notin> set t" using assms(3) by blast
  have dash: "\<not> is_space CHR ''-''" by (simp add: is_space_def)
  have "\<not> is_space c" if "c \<in> set (join_dash ts)" for c
  proof -
    from that set_join_dash [of ts] have "c \<in> (\<Union>t \<in> set ts. set t) \<or> c = CHR ''-''"
      by blast
    then show ?thesis using assms(3) dash by blast
  qed
  then have nospace: "\<forall>c \<in> set url. \<not> is_space c"
    using palette_prefix_no_space by (auto simp: url_def)
  have eq: "palette_prefix @ join_dash ts @ aft = url @ aft" by (simp add: url_def)
  have "find_palette_url (pre @ palette_prefix @ join_dash ts @ aft) =
      find_palette_url (palette_prefix @ join_dash ts @ aft)"
    by (rule find_palette_url_skip [OF assms(1)])
  also have "\<dots> = Some (takeWhile (\<lambda>x. \<not> is_space x) (palette_prefix @ join_dash ts @ aft))"
    by (rule find_palette_url_at)
  also have "\<dots> = Some url"
    unfolding eq using takeWhile_url [OF nospace assms(4)] by simp
  finally have found: "find_palette_url (pre @ palette_prefix @ join_dash ts @ aft) = Some url" .
  have tokens: "split_on CHR ''-'' (drop (length palette_prefix) url) = ts"
    using split_on_join_dash [OF assms(2) nodash] by (simp add: url_def)
  have "extract_palette (pre @ palette_prefix @ join_dash ts @ aft) =
      (if list_all valid_hex ts then Some \<lparr>sourceUrl = url, hexCodes = ts\<rparr> else None)"
    unfolding extract_palette_def found by (simp add: tokens)
  then show ?thesis by (simp add: extract_spec_def url_def)
qed

text \<open>The address of the repository's prompts, and one with a token of five digits.\<close>

theorem palette_all_or_nothing_witness:
  "snd (extract_spec ''Create presentation with https://coolors.co/edd3c4-c8adc0-7765e3-3b60e4-080708 and Merriweather/Inter fonts'') =
     Some \<lparr>sourceUrl = ''https://coolors.co/edd3c4-c8adc0-7765e3-3b60e4-080708'',
           hexCodes = [''edd3c4'', ''c8adc0'', ''7765e3'', ''3b60e4'', ''080708'']\<rparr> \<and>
   snd (extract_spec ''Create presentation with https://coolors.co/edd3c4-c8adc-7765e3 and Merriweather/Inter fonts'') = None"
proof -
  have 1: "\<not> contains palette_prefix (''Create presentation with '' @ butlast palette_prefix)"
    by (simp add: palette_prefix_def)
  have 4: "'' and Merriweather/Inter fonts'' = [] \<or> is_space (hd '' and Merriweather/Inter fonts'')"
    by (simp add: is_space_def)
  have a: "snd (extract_spec (''Create presentation with '' @ palette_prefix @
      join_dash [''edd3c4'', ''c8adc0'', ''7765e3'', ''3b60e4'', ''080708''] @
      '' and Merriweather/Inter fonts'')) =
     Some \<lparr>sourceUrl = ''https://coolors.co/edd3c4-c8adc0-7765e3-3b60e4-080708'',
           hexCodes = [''edd3c4'', ''c8adc0'', ''7765e3'', ''3b60e4'', ''080708'']\<rparr>"
    using palette_all_or_nothing [OF 1 _ _ 4, of "[''edd3c4'', ''c8adc0'', ''7765e3'', ''3b60e4'', ''080708'']"]
    by (simp add: is_space_def valid_hex_def is_hex_def palette_prefix_def)
  have b: "snd (extract_spec (''Create presentation with '' @ palette_prefix @
      join_dash [''edd3c4'', ''c8adc'', ''7765e3''] @
      '' and Merriweather/Inter fonts'')) = None"
    using palette_all_or_nothing [OF 1 _ _ 4, of "[''edd3c4'', ''c8adc'', ''7765e3'']"]
    by (simp add: is_space_def valid_hex_def is_hex_def palette_prefix_def)
  from a b show ?thesis by (simp add: palette_prefix_def)
qed

end
